theory Spec2Isabelle
  imports Complex_Main "HOL-Library.Multiset"
begin

section \<open>Strings and HTML escaping (learning page)\<close>

text \<open>
  JavaScript strings are modelled as \<^typ>\<open>string\<close>: the bytes of the text in UTF-8, which is
  how the source file stores its literals. All the string operations used here act on ASCII
  characters only, and an ASCII byte never occurs inside a multi-byte character, so
  concatenation, comparison, emptiness and the replacement of ASCII characters agree with the
  JavaScript operations. Case mapping is modelled on the ASCII letters only: for a category
  with other letters the lower-cased and the capitalised category of the model are not
  the platform's, and no property below depends on what they are.

  A field of a fetched JSON object is a \<^typ>\<open>string option\<close>: \<open>None\<close> when the field is absent
  (or null). The expression \<^verbatim>\<open>x || d\<close> takes the default \<open>d\<close> when \<open>x\<close> is absent or empty.
\<close>

definition js_or :: "string option \<Rightarrow> string \<Rightarrow> string" where
  "js_or x d = (case x of None \<Rightarrow> d | Some s \<Rightarrow> if s = [] then d else s)"

text \<open>\<^verbatim>\<open>str.replace(/c/g, r)\<close> for a pattern that is one literal character.\<close>

definition replace_g :: "char \<Rightarrow> string \<Rightarrow> string \<Rightarrow> string" where
  "replace_g c r str = concat (map (\<lambda>x. if x = c then r else [x]) str)"

definition escapeHTML :: "string \<Rightarrow> string" where
  "escapeHTML str =
     replace_g (CHR 0x27) ''&#039;''
       (replace_g (CHR 0x22) ''&quot;''
         (replace_g (CHR ''>'') ''&gt;''
           (replace_g (CHR ''<'') ''&lt;''
             (replace_g (CHR ''&'') ''&amp;'' str))))"

text \<open>
  The reading of the specification: each of the five characters is replaced by its entity
  reference, every other character is kept.
\<close>

definition entity_reference :: "char \<Rightarrow> string" where
  "entity_reference c =
     (if c = CHR ''&'' then ''&amp;''
      else if c = CHR ''<'' then ''&lt;''
      else if c = CHR ''>'' then ''&gt;''
      else if c = CHR 0x22 then ''&quot;''
      else if c = CHR 0x27 then ''&#039;''
      else [c])"

definition html_escaped :: "string \<Rightarrow> string" where
  "html_escaped str = concat (map entity_reference str)"

definition toLowerCase :: "string \<Rightarrow> string" where
  "toLowerCase str =
     map (\<lambda>c. let n = (of_char c :: nat) in if 65 \<le> n \<and> n \<le> 90 then char_of (n + 32) else c) str"

definition toUpperCase :: "string \<Rightarrow> string" where
  "toUpperCase str =
     map (\<lambda>c. let n = (of_char c :: nat) in if 97 \<le> n \<and> n \<le> 122 then char_of (n - 32) else c) str"

definition categoryIcon :: "string \<Rightarrow> string" where
  "categoryIcon category =
     (if category = ''technology'' then ''fas fa-microchip''
      else if category = ''policy'' then ''fas fa-gavel''
      else if category = ''science'' then ''fas fa-flask''
      else if category = ''business'' then ''fas fa-briefcase''
      else ''fas fa-globe'')"

text \<open>\<^verbatim>\<open>category.charAt(0).toUpperCase() + category.slice(1)\<close>\<close>

definition prettyCategory :: "string \<Rightarrow> string" where
  "prettyCategory category = toUpperCase (take 1 category) @ drop 1 category"

record news_item =
  title :: "string option"
  summary :: "string option"
  source :: "string option"
  published :: "string option"
  link :: "string option"
  category :: "string option"
  image_url :: "string option"

text \<open>
  The template literal returned by \<^verbatim>\<open>renderNewsItem\<close>, as a function of the constants the
  function computes before it: \<open>cat\<close>, \<open>icon\<close>, \<open>src\<close>, \<open>ttl\<close>, \<open>summ\<close>, \<open>lnk\<close>, \<open>date\<close>, \<open>img\<close>.
\<close>

definition card_markup ::
  "string \<Rightarrow> string \<Rightarrow> string \<Rightarrow> string \<Rightarrow> string \<Rightarrow> string \<Rightarrow> string \<Rightarrow> string \<Rightarrow> string" where
  \<open>card_markup cat icon src ttl summ lnk date img =
     ''\<newline>        <article class="news-card" data-category="'' @ cat @ ''">''
     @ ''\<newline>            <a href="'' @ lnk
     @ ''" target="_blank" rel="noopener" style="text-decoration:none;color:inherit;">''
     @ ''\<newline>                <div class="news-image">''
     @ ''\<newline>                    ''
     @ (if img \<noteq> []
        then ''<img src="'' @ img @ ''" alt="'' @ ttl @ ''" onerror="this.style.display='none'"/>''
        else ''<div class="image-placeholder small"><i class="'' @ icon @ ''"></i></div>'')
     @ ''\<newline>                </div>''
     @ ''\<newline>                <div class="news-content">''
     @ ''\<newline>                    <div class="news-category">'' @ prettyCategory cat
     @ (if src \<noteq> [] then [CHR 0x20, CHR 0xC2, CHR 0xB7, CHR 0x20] @ src else [])
     @ ''</div>''
     @ ''\<newline>                    <h3>'' @ ttl @ ''</h3>''
     @ ''\<newline>                    <p>'' @ summ @ ''</p>''
     @ ''\<newline>                    <div class="news-meta">''
     @ ''\<newline>                        <span class="date">'' @ date @ ''</span>''
     @ ''\<newline>                        <span class="read-time">Live</span>''
     @ ''\<newline>                    </div>''
     @ ''\<newline>                </div>''
     @ ''\<newline>            </a>''
     @ ''\<newline>        </article>''
     @ ''\<newline>    ''\<close>

definition renderNewsItem :: "news_item \<Rightarrow> string" where
  "renderNewsItem item =
     (let cat = toLowerCase (js_or (category item) ''other'');
          icon = categoryIcon cat;
          src = escapeHTML (js_or (source item) []);
          ttl = escapeHTML (js_or (title item) []);
          summ = escapeHTML (js_or (summary item) []);
          lnk = js_or (link item) ''#'';
          date = escapeHTML (js_or (published item) []);
          img = js_or (image_url item) []
      in card_markup cat icon src ttl summ lnk date img)"

section \<open>The news feed (learning page)\<close>

text \<open>
  The pagination state \<^verbatim>\<open>window.__NEWS_STATE__\<close> together with the two parts of the page the
  feed writes: the inner HTML of the element \<^verbatim>\<open>#news-grid\<close> (\<open>None\<close> when the page has no such
  element) and the item shown in the featured slot. \<^verbatim>\<open>insertAdjacentHTML('beforeend', html)\<close>
  appends to the grid's markup.
\<close>

record news_page =
  allItems :: "news_item list"
  page :: nat
  pageSize :: nat
  filteredCategory :: string
  loading :: bool
  reachedEnd :: bool
  grid :: "string option"
  featured :: "news_item option"

definition skeletonCard :: string where
  \<open>skeletonCard =
     ''\<newline>        <article class="news-card" aria-busy="true">''
     @ ''\<newline>            <div class="news-image">''
     @ ''\<newline>                <div class="image-placeholder small" style="animation:pulse 1.2s infinite ease-in-out;"></div>''
     @ ''\<newline>            </div>''
     @ ''\<newline>            <div class="news-content">''
     @ ''\<newline>                <div class="news-category" style="width:160px;height:20px;background:#e2e8f0;border-radius:8px;animation:pulse 1.2s infinite ease-in-out;"></div>''
     @ ''\<newline>                <div style="height:20px;margin-top:12px;background:#e2e8f0;border-radius:8px;animation:pulse 1.2s infinite ease-in-out;"></div>''
     @ ''\<newline>                <div style="height:14px;margin-top:10px;background:#edf2f7;border-radius:6px;animation:pulse 1.2s infinite ease-in-out;"></div>''
     @ ''\<newline>                <div style="height:14px;margin-top:8px;background:#edf2f7;border-radius:6px;animation:pulse 1.2s infinite ease-in-out;"></div>''
     @ ''\<newline>                <div class="news-meta" style="margin-top:12px;opacity:.6;">''
     @ ''\<newline>                    <span class="date">Loading'' @ [CHR 0xE2, CHR 0x80, CHR 0xA6] @ ''</span>''
     @ ''\<newline>                    <span class="read-time">Live</span>''
     @ ''\<newline>                </div>''
     @ ''\<newline>            </div>''
     @ ''\<newline>        </article>''
     @ ''\<newline>    ''\<close>

definition createSkeletonCards :: "nat \<Rightarrow> string" where
  "createSkeletonCards n = concat (replicate n skeletonCard)"

definition emptyStateHTML :: string where
  \<open>emptyStateHTML =
     ''\<newline>        <div style="grid-column:1/-1;text-align:center;padding:2rem;color:#718096;">''
     @ ''\<newline>            No news found right now. Please try again later.''
     @ ''\<newline>        </div>''
     @ ''\<newline>    ''\<close>

definition errorStateHTML :: string where
  \<open>errorStateHTML =
     ''\<newline>        <div style="grid-column:1/-1;text-align:center;padding:2rem;color:#e53e3e;">''
     @ ''\<newline>            Could not load news. Please refresh the page.''
     @ ''\<newline>        </div>''
     @ ''\<newline>    ''\<close>

text \<open>
  \<^verbatim>\<open>renderFeatured\<close> fills the elements of the featured slot from the item; the model keeps
  the item the slot was last filled from. An undefined item leaves the slot alone.
\<close>

definition renderFeatured :: "news_item option \<Rightarrow> news_page \<Rightarrow> news_page" where
  "renderFeatured item s = (case item of None \<Rightarrow> s | Some i \<Rightarrow> s\<lparr>featured := Some i\<rparr>)"

definition renderNextPage :: "news_page \<Rightarrow> news_page" where
  "renderNextPage s =
     (case grid s of
        None \<Rightarrow> s
      | Some g \<Rightarrow>
          if reachedEnd s then s
          else
            let start = page s * pageSize s;
                filtered =
                  (if filteredCategory s = ''all'' then allItems s
                   else filter (\<lambda>i. js_or (category i) ''other'' = filteredCategory s) (allItems s));
                pageItems = take (pageSize s) (drop start filtered);
                g1 = (if page s = 0 then [] else g)
            in if pageItems = []
               then s\<lparr>grid := Some (if page s = 0 then emptyStateHTML else g1), reachedEnd := True\<rparr>
               else s\<lparr>grid := Some (g1 @ concat (map renderNewsItem pageItems)),
                      page := page s + 1\<rparr>)"

text \<open>
  The click listener that \<^verbatim>\<open>setupCategoryFiltering\<close> installs on a category button, for a
  listener bound to the page's pagination state (the marking of the active button is
  presentation and is left out).
\<close>

definition setCategory :: "string \<Rightarrow> news_page \<Rightarrow> news_page" where
  "setCategory selectedCategory s =
     renderNextPage (s\<lparr>filteredCategory := selectedCategory, page := 0, reachedEnd := False\<rparr>)"

text \<open>
  The scroll listener of \<^verbatim>\<open>setupInfiniteScroll\<close>, given the window's inner height and scroll
  offset and the height of the document body.
\<close>

definition onScroll :: "int \<Rightarrow> int \<Rightarrow> int \<Rightarrow> news_page \<Rightarrow> news_page" where
  "onScroll innerHeight scrollY offsetHeight s =
     (if loading s \<or> reachedEnd s then s
      else let scrollPosition = innerHeight + scrollY;
               threshold = offsetHeight - 300
           in if scrollPosition \<ge> threshold then renderNextPage s else s)"

subsection \<open>Sorting by publication date\<close>

text \<open>
  \<^verbatim>\<open>new Date(x)\<close> is the platform's: the parser of date strings is a parameter, giving the
  time value in milliseconds, or \<open>None\<close> for an invalid date (whose time value is NaN).
  \<^verbatim>\<open>new Date(item.published || 0)\<close> is the epoch when the field is absent or empty.
\<close>

type_synonym date_parser = "string \<Rightarrow> int option"

definition publishedTime :: "date_parser \<Rightarrow> news_item \<Rightarrow> int option" where
  "publishedTime parse item =
     (case published item of
        None \<Rightarrow> Some 0
      | Some str \<Rightarrow> if str = [] then Some 0 else parse str)"

text \<open>The comparator \<^verbatim>\<open>(a, b) => new Date(b.published || 0) - new Date(a.published || 0)\<close>;
  \<open>None\<close> is NaN.\<close>

definition compareNewest :: "date_parser \<Rightarrow> news_item \<Rightarrow> news_item \<Rightarrow> int option" where
  "compareNewest parse a b =
     (case publishedTime parse b of
        None \<Rightarrow> None
      | Some tb \<Rightarrow> (case publishedTime parse a of None \<Rightarrow> None | Some ta \<Rightarrow> Some (tb - ta)))"

text \<open>
  \<^verbatim>\<open>Array.prototype.sort(comparefn)\<close> is the platform's and is a parameter. It reads a NaN
  from the comparator as \<open>+0\<close>. The language fixes its result only for a comparator that
  is consistent on the elements (it never gives NaN, and it divides the elements into
  classes of equal elements that are totally ordered): the result is then a permutation
  of the elements, sorted by the comparator, in which equal elements keep their order.
  For any other comparator the order is left to the implementation.
\<close>

type_synonym 'a comparefn = "'a \<Rightarrow> 'a \<Rightarrow> int option"

definition compare_value :: "int option \<Rightarrow> int" where
  "compare_value v = (case v of None \<Rightarrow> 0 | Some n \<Rightarrow> n)"

definition consistent_comparator :: "'a comparefn \<Rightarrow> 'a set \<Rightarrow> bool" where
  "consistent_comparator comparefn S \<longleftrightarrow>
     (\<forall>a\<in>S. \<forall>b\<in>S. comparefn a b \<noteq> None)
     \<and> (\<forall>a\<in>S. compare_value (comparefn a a) = 0)
     \<and> (\<forall>a\<in>S. \<forall>b\<in>S. compare_value (comparefn a b) = 0 \<longrightarrow> compare_value (comparefn b a) = 0)
     \<and> (\<forall>a\<in>S. \<forall>b\<in>S. \<forall>c\<in>S.
          compare_value (comparefn a b) = 0 \<and> compare_value (comparefn b c) = 0
          \<longrightarrow> compare_value (comparefn a c) = 0)
     \<and> (\<forall>a\<in>S. \<forall>b\<in>S. \<forall>c\<in>S.
          compare_value (comparefn a b) < 0 \<and> compare_value (comparefn b c) < 0
          \<longrightarrow> compare_value (comparefn a c) < 0)
     \<and> (\<forall>a\<in>S. \<forall>b\<in>S. \<forall>c\<in>S.
          compare_value (comparefn a b) > 0 \<and> compare_value (comparefn b c) > 0
          \<longrightarrow> compare_value (comparefn a c) > 0)"

definition stable_sorted :: "'a comparefn \<Rightarrow> 'a list \<Rightarrow> 'a list \<Rightarrow> bool" where
  "stable_sorted comparefn xs ys \<longleftrightarrow>
     mset ys = mset xs
     \<and> sorted_wrt (\<lambda>a b. compare_value (comparefn a b) \<le> 0) ys
     \<and> (\<forall>a\<in>set xs. filter (\<lambda>b. compare_value (comparefn a b) = 0) ys
                      = filter (\<lambda>b. compare_value (comparefn a b) = 0) xs)"

text \<open>A sort function that does what the language requires of \<^verbatim>\<open>Array.prototype.sort\<close>.\<close>

definition engine_sort :: "('a comparefn \<Rightarrow> 'a list \<Rightarrow> 'a list) \<Rightarrow> bool" where
  "engine_sort sorter \<longleftrightarrow>
     (\<forall>comparefn xs. consistent_comparator comparefn (set xs)
        \<longrightarrow> stable_sorted comparefn xs (sorter comparefn xs))"

text \<open>
  One such sort function, for the examples: the stable insertion sort, in which an
  element goes in front of the first element it is not greater than.
\<close>

fun insert_sorted :: "'a comparefn \<Rightarrow> 'a \<Rightarrow> 'a list \<Rightarrow> 'a list" where
  "insert_sorted comparefn x [] = [x]"
| "insert_sorted comparefn x (y # ys) =
     (if compare_value (comparefn x y) \<le> 0 then x # y # ys
      else y # insert_sorted comparefn x ys)"

definition insertion_sort :: "'a comparefn \<Rightarrow> 'a list \<Rightarrow> 'a list" where
  "insertion_sort comparefn xs = foldr (insert_sorted comparefn) xs []"

subsection \<open>Fetching the news\<close>

text \<open>
  What a \<^verbatim>\<open>fetch\<close> followed by \<^verbatim>\<open>response.json()\<close> can give: the request is rejected
  (transport failure), or a response arrives with a status and a body. The body is not
  JSON (\<^verbatim>\<open>response.json()\<close> rejects), is the JSON value null (reading a property of it
  throws), or is a JSON value whose field \<^verbatim>\<open>items\<close> is an array (\<open>Some\<close>) or is not
  (\<open>None\<close>).

  The elements of the array are news items as the specification has them: objects whose
  fields are strings or absent. An array with other elements (a null, an item whose
  category or summary is a number) is not a value of this type: on such an element the
  rendering code can throw, and the properties below do not speak of it.
\<close>

datatype 'a json_body = NotJson | JsonNull | Json "'a list option"

datatype 'a response = Rejected | Response nat "'a json_body"

definition ok :: "nat \<Rightarrow> bool" where
  "ok status = (200 \<le> status \<and> status \<le> 299)"

text \<open>
  \<^verbatim>\<open>fetchLiveNews\<close> up to its \<^verbatim>\<open>await\<close>, and from the settled request on. In between,
  other listeners may run, on a state whose \<open>loading\<close> flag is set. The parameters are
  the platform's date parser and sort function.
\<close>

definition fetchLiveNews_begin :: "bool \<Rightarrow> news_page \<Rightarrow> news_page" where
  "fetchLiveNews_begin initial s =
     (let s1 = s\<lparr>loading := True\<rparr>
      in if initial then s1\<lparr>grid := Some (createSkeletonCards (pageSize s1))\<rparr> else s1)"

definition fetchLiveNews_settle ::
  "date_parser \<Rightarrow> (news_item comparefn \<Rightarrow> news_item list \<Rightarrow> news_item list)
     \<Rightarrow> news_item response \<Rightarrow> news_page \<Rightarrow> news_page" where
  "fetchLiveNews_settle parse sorter r s =
     (let failed = s\<lparr>grid := Some errorStateHTML\<rparr>;
          s1 =
            (case r of
               Rejected \<Rightarrow> failed
             | Response status body \<Rightarrow>
                 if \<not> ok status then failed
                 else
                   (case body of
                      NotJson \<Rightarrow> failed
                    | JsonNull \<Rightarrow> failed
                    | Json data_items \<Rightarrow>
                        let items = (case data_items of None \<Rightarrow> [] | Some xs \<Rightarrow> xs)
                        in if items = []
                           then s\<lparr>grid := Some emptyStateHTML, reachedEnd := True\<rparr>
                           else
                             let sorted = sorter (compareNewest parse) items;
                                 s2 = s\<lparr>allItems := sorted, page := 0, reachedEnd := False\<rparr>;
                                 s3 = renderFeatured (case sorted of [] \<Rightarrow> None | x # _ \<Rightarrow> Some x) s2
                             in renderNextPage s3))
      in s1\<lparr>loading := False\<rparr>)"

definition fetchLiveNews ::
  "bool \<Rightarrow> date_parser \<Rightarrow> (news_item comparefn \<Rightarrow> news_item list \<Rightarrow> news_item list)
     \<Rightarrow> news_item response \<Rightarrow> news_page \<Rightarrow> news_page" where
  "fetchLiveNews initial parse sorter r s =
     (if grid s = None then s
      else if loading s then s
      else fetchLiveNews_settle parse sorter r (fetchLiveNews_begin initial s))"

section \<open>JSON values\<close>

text \<open>
  A parsed JSON value. An object is the list of the members of its text; of members of
  the same name \<^verbatim>\<open>JSON.parse\<close> keeps the last. Numbers are real numbers (a JSON text has
  neither NaN nor an infinity).
\<close>

datatype json =
  JNull
| JBool bool
| JNum real
| JStr string
| JArr "json list"
| JObj "(string \<times> json) list"

text \<open>The truth value of a JSON value in a condition.\<close>

fun truthy :: "json \<Rightarrow> bool" where
  "truthy JNull = False"
| "truthy (JBool b) = b"
| "truthy (JNum n) = (n \<noteq> 0)"
| "truthy (JStr str) = (str \<noteq> [])"
| "truthy (JArr xs) = True"
| "truthy (JObj props) = True"

text \<open>Reading the property \<open>name\<close> of an object; \<open>None\<close> is undefined.\<close>

definition property :: "(string \<times> json) list \<Rightarrow> string \<Rightarrow> json option" where
  "property members name = map_of (rev members) name"

datatype js_error = FetchFailed | SyntaxError | TypeError

text \<open>
  The conversions of a JSON value to a number and to a string are the platform's and are
  parameters. A conversion can throw (an object whose \<^verbatim>\<open>toString\<close> and \<^verbatim>\<open>valueOf\<close> members
  hide the inherited functions cannot be converted). For a number, \<open>None\<close> is NaN.
\<close>

record platform =
  to_number :: "json \<Rightarrow> js_error + real option"
  to_string :: "json \<Rightarrow> js_error + string"

section \<open>The carbon footprint calculator\<close>

text \<open>
  JavaScript numbers are modelled as real numbers: the finite values, with exact arithmetic.
  Rounding, NaN and the infinities are outside the model. The page is taken to contain every
  element the calculator looks up. Where the source formats a number for display
  (\<^verbatim>\<open>toFixed\<close>, a unit appended), the model keeps the number that is formatted.
\<close>

datatype transport = Bus | Car | Bike | Cycle | Walking

record transport_entry =
  distance :: real
  emission :: real

record transport_data =
  bus :: transport_entry
  car :: transport_entry
  bike :: transport_entry
  cycle :: transport_entry
  walking :: transport_entry

text \<open>The object literal of the constructor and of \<^verbatim>\<open>resetCalculator\<close>.\<close>

definition initial_transportData :: transport_data where
  "initial_transportData =
     \<lparr>bus = \<lparr>distance = 0, emission = 0.12\<rparr>,
      car = \<lparr>distance = 0, emission = 0.21\<rparr>,
      bike = \<lparr>distance = 0, emission = 0.075\<rparr>,
      cycle = \<lparr>distance = 0, emission = 0\<rparr>,
      walking = \<lparr>distance = 0, emission = 0\<rparr>\<rparr>"

text \<open>\<^verbatim>\<open>this.transportData[transport]\<close>, and \<^verbatim>\<open>Object.entries\<close> and \<^verbatim>\<open>Object.values\<close> in the
  order of the keys.\<close>

fun entry_of :: "transport_data \<Rightarrow> transport \<Rightarrow> transport_entry" where
  "entry_of td Bus = bus td"
| "entry_of td Car = car td"
| "entry_of td Bike = bike td"
| "entry_of td Cycle = cycle td"
| "entry_of td Walking = walking td"

text \<open>\<^verbatim>\<open>this.transportData[transport].distance = value\<close>\<close>

fun assign_distance :: "transport \<Rightarrow> real \<Rightarrow> transport_data \<Rightarrow> transport_data" where
  "assign_distance Bus v td = td\<lparr>bus := (bus td)\<lparr>distance := v\<rparr>\<rparr>"
| "assign_distance Car v td = td\<lparr>car := (car td)\<lparr>distance := v\<rparr>\<rparr>"
| "assign_distance Bike v td = td\<lparr>bike := (bike td)\<lparr>distance := v\<rparr>\<rparr>"
| "assign_distance Cycle v td = td\<lparr>cycle := (cycle td)\<lparr>distance := v\<rparr>\<rparr>"
| "assign_distance Walking v td = td\<lparr>walking := (walking td)\<lparr>distance := v\<rparr>\<rparr>"

definition entries :: "transport_data \<Rightarrow> (transport \<times> transport_entry) list" where
  "entries td = map (\<lambda>t. (t, entry_of td t)) [Bus, Car, Bike, Cycle, Walking]"

definition values_of :: "transport_data \<Rightarrow> transport_entry list" where
  "values_of td = map snd (entries td)"

text \<open>What the tips section shows below its description: the list of tips (the text of
  each list item), or the markup of an error paragraph.\<close>

datatype tips_view = TipsList "string list" | TipsError string

text \<open>
  The calculator's data and the parts of the page it writes: per transport the slider's
  value, the text of \<^verbatim>\<open>#<transport>-value\<close>, the text of \<^verbatim>\<open>#<transport>-emission\<close> and the
  height of \<^verbatim>\<open>#<transport>-bar\<close> in percent; the totals; the stroke offset of the progress
  circle; the achievement text and background; the tips section (\<open>None\<close>: as the page
  was delivered).
\<close>

record calculator =
  transportData :: transport_data
  slider_value :: "transport \<Rightarrow> real"
  value_text :: "transport \<Rightarrow> real"
  total_distance_text :: real
  emission_text :: "transport \<Rightarrow> real"
  total_emission_text :: real
  co2_saved_text :: real
  bar_height :: "transport \<Rightarrow> real"
  strokeDashoffset :: real
  achievement_text :: string
  achievement_background :: string
  tips_section :: "tips_view option"

definition updateTransportValue :: "transport \<Rightarrow> real \<Rightarrow> calculator \<Rightarrow> calculator" where
  "updateTransportValue t v s = s\<lparr>value_text := (value_text s)(t := v)\<rparr>"

text \<open>\<^verbatim>\<open>Object.values(this.transportData).reduce((sum, data) => sum + data.distance, 0)\<close>,
  which the source writes out four times.\<close>

definition totalDistance :: "transport_data \<Rightarrow> real" where
  "totalDistance td = foldl (\<lambda>sum d. sum + distance d) 0 (values_of td)"

text \<open>The \<^verbatim>\<open>reduce\<close> of the request payload:
  \<^verbatim>\<open>sum + (data.distance * data.emission)\<close> over the entries.\<close>

definition totalEmission :: "transport_data \<Rightarrow> real" where
  "totalEmission td = foldl (\<lambda>sum (t, d). sum + distance d * emission d) 0 (entries td)"

definition updateTotalDistance :: "calculator \<Rightarrow> calculator" where
  "updateTotalDistance s = s\<lparr>total_distance_text := totalDistance (transportData s)\<rparr>"

text \<open>One round of the \<^verbatim>\<open>forEach\<close> of \<^verbatim>\<open>updateEmissions\<close>, on the two running totals and
  the bar value texts.\<close>

definition emission_step ::
  "real \<times> real \<times> (transport \<Rightarrow> real) \<Rightarrow> transport \<times> transport_entry
     \<Rightarrow> real \<times> real \<times> (transport \<Rightarrow> real)" where
  "emission_step acc td =
     (case acc of (totalEm, totalSaved, texts) \<Rightarrow>
        (case td of (t, d) \<Rightarrow>
           let e = distance d * emission d;
               totalEm' = totalEm + e;
               totalSaved' =
                 (if t \<noteq> Car
                  then let carEmission = distance d * 0.21;
                           saved = max 0 (carEmission - e)
                       in totalSaved + saved
                  else totalSaved)
           in (totalEm', totalSaved', texts(t := e))))"

definition updateEmissions :: "calculator \<Rightarrow> calculator" where
  "updateEmissions s =
     (case foldl emission_step (0, 0, emission_text s) (entries (transportData s)) of
        (totalEm, totalSaved, texts) \<Rightarrow>
          s\<lparr>emission_text := texts, total_emission_text := totalEm, co2_saved_text := totalSaved\<rparr>)"

text \<open>\<^verbatim>\<open>Math.max(...xs)\<close>; it is called on the five emissions, never on no argument (where
  JavaScript gives minus infinity).\<close>

fun math_max :: "real list \<Rightarrow> real" where
  "math_max [] = 0"
| "math_max (x # xs) = fold max xs x"

definition updateBarChart :: "calculator \<Rightarrow> calculator" where
  "updateBarChart s =
     (let maxEmission = math_max (map (\<lambda>(t, d). distance d * emission d) (entries (transportData s)))
      in s\<lparr>bar_height :=
             foldl (\<lambda>heights (t, d).
                      let e = distance d * emission d;
                          percentage = (if maxEmission > 0 then (e / maxEmission) * 100 else 0)
                      in heights(t := max percentage 5))
                   (bar_height s) (entries (transportData s))\<rparr>)"

definition updateProgressCircle :: "calculator \<Rightarrow> calculator" where
  "updateProgressCircle s =
     (let maxDistance = 500;
          percentage = min ((totalDistance (transportData s) / maxDistance) * 100) 100;
          circumference = 2 * pi * 100;
          offset = circumference - (percentage / 100) * circumference
      in s\<lparr>strokeDashoffset := offset\<rparr>)"

text \<open>The constant \<^verbatim>\<open>zeroEmissionPercentage\<close> of \<^verbatim>\<open>updateAchievement\<close>.\<close>

definition zeroEmissionPercentage :: "transport_data \<Rightarrow> real" where
  "zeroEmissionPercentage td =
     (let zeroEmissionDistance = distance (cycle td) + distance (walking td);
          total = totalDistance td
      in if total > 0 then (zeroEmissionDistance / total) * 100 else 0)"

definition updateAchievement :: "calculator \<Rightarrow> calculator" where
  "updateAchievement s =
     (let p = zeroEmissionPercentage (transportData s)
      in if p \<ge> 50
         then s\<lparr>achievement_text := ''Outstanding! Over 50% of your travel is zero-emission.'',
                achievement_background := ''#d4edda''\<rparr>
         else if p \<ge> 25
         then s\<lparr>achievement_text := ''Good progress! 25% of your travel is zero-emission.'',
                achievement_background := ''#fff3cd''\<rparr>
         else s\<lparr>achievement_text := ''Try to increase zero-emission transportation for better impact.'',
                achievement_background := ''#f8d7da''\<rparr>)"

definition updateCalculations :: "calculator \<Rightarrow> calculator" where
  "updateCalculations s =
     updateAchievement (updateProgressCircle (updateBarChart (updateEmissions (updateTotalDistance s))))"

text \<open>
  The constructor, on the page as delivered: it sets the data and runs \<^verbatim>\<open>init\<close>, which
  installs the listeners and calls \<^verbatim>\<open>updateCalculations\<close>.
\<close>

definition new_calculator :: "calculator \<Rightarrow> calculator" where
  "new_calculator delivered = updateCalculations (delivered\<lparr>transportData := initial_transportData\<rparr>)"

text \<open>
  The \<^verbatim>\<open>input\<close> listener that \<^verbatim>\<open>setupSliders\<close> installs on a slider: \<open>t\<close> is the slider's
  \<^verbatim>\<open>data-transport\<close>, \<open>v\<close> the \<^verbatim>\<open>parseFloat\<close> of the slider's new value.
\<close>

definition setupSliders_input :: "transport \<Rightarrow> real \<Rightarrow> calculator \<Rightarrow> calculator" where
  "setupSliders_input t v s =
     (let s0 = s\<lparr>slider_value := (slider_value s)(t := v)\<rparr>;
          s1 = s0\<lparr>transportData := assign_distance t v (transportData s0)\<rparr>;
          s2 = updateTransportValue t v s1
      in updateCalculations s2)"

definition resetCalculator :: "calculator \<Rightarrow> calculator" where
  "resetCalculator s =
     (let s1 = s\<lparr>transportData := initial_transportData\<rparr>;
          s2 = foldl (\<lambda>q (t, d). updateTransportValue t 0 (q\<lparr>slider_value := (slider_value q)(t := 0)\<rparr>))
                 s1 (entries (transportData s1))
      in updateCalculations s2)"

subsection \<open>Tailored tips\<close>

text \<open>The body of the request: the local constant \<^verbatim>\<open>transportData\<close> of
  \<^verbatim>\<open>generateTailoredTips\<close>.\<close>

record tips_payload =
  payload_bus :: real
  payload_car :: real
  payload_bike :: real
  payload_cycle :: real
  payload_walking :: real
  payload_totalDistance :: real
  payload_totalEmission :: real

definition snapshot :: "transport_data \<Rightarrow> tips_payload" where
  "snapshot td =
     \<lparr>payload_bus = distance (bus td),
      payload_car = distance (car td),
      payload_bike = distance (bike td),
      payload_cycle = distance (cycle td),
      payload_walking = distance (walking td),
      payload_totalDistance = totalDistance td,
      payload_totalEmission = totalEmission td\<rparr>"

definition unable_message :: string where
  \<open>unable_message = ''<p style="color: #6b7280; font-style: italic; margin-top: 1rem;">Unable to generate tailored tips. Please try again.</p>''\<close>

definition error_message :: string where
  \<open>error_message = ''<p style="color: #6b7280; font-style: italic; margin-top: 1rem;">Error generating tailored tips. Please try again.</p>''\<close>

text \<open>
  The outcome of the request to the tips service: the request is rejected, or a response
  arrives with a status and a body, which is not JSON (\<open>None\<close>: \<^verbatim>\<open>response.json()\<close>
  rejects) or is a JSON value.
\<close>

datatype tips_response = TipsRejected | TipsResponse nat "json option"

text \<open>\<^verbatim>\<open>data.tips\<close>: reading the property throws on null; \<open>None\<close> is undefined. (No other
  JSON value inherits a property of this name.)\<close>

definition tips_of :: "json \<Rightarrow> js_error + json option" where
  "tips_of data =
     (case data of
        JNull \<Rightarrow> Inl TypeError
      | JObj members \<Rightarrow> Inr (property members ''tips'')
      | _ \<Rightarrow> Inr None)"

text \<open>
  \<^verbatim>\<open>v > 0\<close> for a JSON value \<open>v\<close>: null converts to 0, a boolean to 0 or 1; a string, an
  array and an object are converted by the platform.
\<close>

definition greater_than_zero :: "platform \<Rightarrow> json \<Rightarrow> js_error + bool" where
  "greater_than_zero pf v =
     (case v of
        JNull \<Rightarrow> Inr False
      | JBool b \<Rightarrow> Inr b
      | JNum n \<Rightarrow> Inr (n > 0)
      | _ \<Rightarrow>
          (case to_number pf v of
             Inl err \<Rightarrow> Inl err
           | Inr None \<Rightarrow> Inr False
           | Inr (Some n) \<Rightarrow> Inr (n > 0)))"

text \<open>
  \<^verbatim>\<open>v.length > 0\<close> for a JSON value \<open>v\<close> other than null: a string and an array have their
  length, an object has the member of that name if it has one, a number and a boolean
  have none (undefined, which is not greater than 0).
\<close>

definition length_positive :: "platform \<Rightarrow> json \<Rightarrow> js_error + bool" where
  "length_positive pf v =
     (case v of
        JStr str \<Rightarrow> Inr (str \<noteq> [])
      | JArr xs \<Rightarrow> Inr (xs \<noteq> [])
      | JObj members \<Rightarrow>
          (case property members ''length'' of
             None \<Rightarrow> Inr False
           | Some l \<Rightarrow> greater_than_zero pf l)
      | _ \<Rightarrow> Inr False)"

text \<open>
  \<^verbatim>\<open>li.textContent = tip\<close>: a string is taken as it is, null gives the empty text, a
  boolean its name; a number, an array and an object are converted by the platform.
  \<^verbatim>\<open>forEach\<close> stops at the first conversion that throws.
\<close>

definition text_of :: "platform \<Rightarrow> json \<Rightarrow> js_error + string" where
  "text_of pf v =
     (case v of
        JStr str \<Rightarrow> Inr str
      | JNull \<Rightarrow> Inr []
      | JBool b \<Rightarrow> Inr (if b then ''true'' else ''false'')
      | _ \<Rightarrow> to_string pf v)"

fun texts_of :: "platform \<Rightarrow> json list \<Rightarrow> js_error + string list" where
  "texts_of pf [] = Inr []"
| "texts_of pf (v # vs) =
     (case text_of pf v of
        Inl err \<Rightarrow> Inl err
      | Inr t \<Rightarrow> (case texts_of pf vs of Inl err \<Rightarrow> Inl err | Inr ts \<Rightarrow> Inr (t # ts)))"

text \<open>
  The \<^verbatim>\<open>try\<close> block of \<^verbatim>\<open>generateTailoredTips\<close>: the tips service is a function from the
  request body to the outcome of the request. \<open>Inl\<close> is an exception thrown inside the
  block. The status of the response is logged and not otherwise read. In the branch of
  the list, \<^verbatim>\<open>data.tips.slice(0, 5)\<close> followed by \<^verbatim>\<open>forEach\<close> works on an array; a string has
  \<^verbatim>\<open>slice\<close> but no \<^verbatim>\<open>forEach\<close>, an object has neither, and the call throws. The list is
  put into the page after the last item is filled.
\<close>

definition tips_try ::
  "platform \<Rightarrow> (tips_payload \<Rightarrow> tips_response) \<Rightarrow> calculator \<Rightarrow> js_error + tips_view" where
  "tips_try pf service s =
     (case service (snapshot (transportData s)) of
        TipsRejected \<Rightarrow> Inl FetchFailed
      | TipsResponse status body \<Rightarrow>
          (case body of
             None \<Rightarrow> Inl SyntaxError
           | Some data \<Rightarrow>
               (case tips_of data of
                  Inl err \<Rightarrow> Inl err
                | Inr data_tips \<Rightarrow>
                    (case data_tips of
                       None \<Rightarrow> Inr (TipsError unable_message)
                     | Some tips \<Rightarrow>
                         if \<not> truthy tips then Inr (TipsError unable_message)
                         else
                           (case length_positive pf tips of
                              Inl err \<Rightarrow> Inl err
                            | Inr False \<Rightarrow> Inr (TipsError unable_message)
                            | Inr True \<Rightarrow>
                                (case tips of
                                   JArr xs \<Rightarrow>
                                     (case texts_of pf (take 5 xs) of
                                        Inl err \<Rightarrow> Inl err
                                      | Inr ts \<Rightarrow> Inr (TipsList ts))
                                 | _ \<Rightarrow> Inl TypeError))))))"

text \<open>
  What the page has of the tips section when \<^verbatim>\<open>generateTailoredTips\<close> starts: no element
  of class \<^verbatim>\<open>tips-section\<close>; such an element with no \<^verbatim>\<open>p\<close> in it; or the section with
  its description. The lookups come before the \<^verbatim>\<open>try\<close> block: on a missing section
  \<^verbatim>\<open>tipsSection.querySelector\<close> throws, on a missing description
  \<^verbatim>\<open>tipsDescription.nextElementSibling\<close> throws.
\<close>

datatype tips_page = NoSection | NoDescription | SectionWithDescription

text \<open>
  The settled promise of a call of \<^verbatim>\<open>generateTailoredTips\<close> that no other call overlaps:
  \<open>Inr\<close> the page when it is fulfilled, \<open>Inl\<close> the exception when it is rejected.
  Everything below the description of the tips section is removed first, and the loading
  indicator is removed before the outcome is shown, so the section then shows the outcome
  alone.
\<close>

definition generateTailoredTips ::
  "tips_page \<Rightarrow> platform \<Rightarrow> (tips_payload \<Rightarrow> tips_response) \<Rightarrow> calculator
     \<Rightarrow> js_error + calculator" where
  "generateTailoredTips tp pf service s =
     (case tp of
        NoSection \<Rightarrow> Inl TypeError
      | NoDescription \<Rightarrow> Inl TypeError
      | SectionWithDescription \<Rightarrow>
          (case tips_try pf service s of
             Inr view \<Rightarrow> Inr (s\<lparr>tips_section := Some view\<rparr>)
           | Inl err \<Rightarrow> Inr (s\<lparr>tips_section := Some (TipsError error_message)\<rparr>)))"

text \<open>The states the calculator can be in: after the constructor, and after any listener.\<close>

inductive reachable :: "calculator \<Rightarrow> bool" where
  constructed: "reachable (new_calculator delivered)"
| slid: "reachable s \<Longrightarrow> reachable (setupSliders_input t v s)"
| reset: "reachable s \<Longrightarrow> reachable (resetCalculator s)"
| tipped: "reachable s \<Longrightarrow> generateTailoredTips tp pf service s = Inr s' \<Longrightarrow> reachable s'"

subsection \<open>The achievement share at the limits of the number range\<close>

text \<open>
  The numbers of JavaScript with their overflow: a finite number, an infinity, or NaN.
  The result of an operation on finite numbers is kept exact (rounding is not modelled)
  unless its magnitude reaches \<open>2^1024 - 2^970\<close>, from where on round-to-nearest gives
  the infinity of its sign. The two zeros are not told apart.
\<close>

datatype number = Num real | PosInfinity | NegInfinity | NaN

definition overflow_limit :: real where
  "overflow_limit = 2 ^ 1024 - 2 ^ 970"

definition to_range :: "real \<Rightarrow> number" where
  "to_range r =
     (if r \<ge> overflow_limit then PosInfinity
      else if r \<le> - overflow_limit then NegInfinity
      else Num r)"

fun num_add :: "number \<Rightarrow> number \<Rightarrow> number" where
  "num_add (Num a) (Num b) = to_range (a + b)"
| "num_add NaN y = NaN"
| "num_add x NaN = NaN"
| "num_add PosInfinity NegInfinity = NaN"
| "num_add NegInfinity PosInfinity = NaN"
| "num_add PosInfinity y = PosInfinity"
| "num_add x PosInfinity = PosInfinity"
| "num_add NegInfinity y = NegInfinity"
| "num_add x NegInfinity = NegInfinity"

fun num_mul :: "number \<Rightarrow> number \<Rightarrow> number" where
  "num_mul (Num a) (Num b) = to_range (a * b)"
| "num_mul NaN y = NaN"
| "num_mul x NaN = NaN"
| "num_mul PosInfinity (Num b) = (if b = 0 then NaN else if b > 0 then PosInfinity else NegInfinity)"
| "num_mul NegInfinity (Num b) = (if b = 0 then NaN else if b > 0 then NegInfinity else PosInfinity)"
| "num_mul (Num a) PosInfinity = (if a = 0 then NaN else if a > 0 then PosInfinity else NegInfinity)"
| "num_mul (Num a) NegInfinity = (if a = 0 then NaN else if a > 0 then NegInfinity else PosInfinity)"
| "num_mul PosInfinity PosInfinity = PosInfinity"
| "num_mul NegInfinity NegInfinity = PosInfinity"
| "num_mul PosInfinity NegInfinity = NegInfinity"
| "num_mul NegInfinity PosInfinity = NegInfinity"

fun num_div :: "number \<Rightarrow> number \<Rightarrow> number" where
  "num_div (Num a) (Num b) =
     (if b = 0 then (if a = 0 then NaN else if a > 0 then PosInfinity else NegInfinity)
      else to_range (a / b))"
| "num_div NaN y = NaN"
| "num_div x NaN = NaN"
| "num_div (Num a) PosInfinity = Num 0"
| "num_div (Num a) NegInfinity = Num 0"
| "num_div PosInfinity (Num b) = (if b \<ge> 0 then PosInfinity else NegInfinity)"
| "num_div NegInfinity (Num b) = (if b \<ge> 0 then NegInfinity else PosInfinity)"
| "num_div PosInfinity y = NaN"
| "num_div NegInfinity y = NaN"

text \<open>\<^verbatim>\<open>x > y\<close>: false when either is NaN.\<close>

fun num_gt :: "number \<Rightarrow> number \<Rightarrow> bool" where
  "num_gt (Num a) (Num b) = (a > b)"
| "num_gt PosInfinity (Num b) = True"
| "num_gt PosInfinity NegInfinity = True"
| "num_gt (Num a) NegInfinity = True"
| "num_gt x y = False"

text \<open>
  The total distance and the constant \<^verbatim>\<open>zeroEmissionPercentage\<close> of
  \<^verbatim>\<open>updateAchievement\<close> once more, on the distances of the five transports as such
  numbers.
\<close>

definition totalDistance_num :: "(transport \<Rightarrow> number) \<Rightarrow> number" where
  "totalDistance_num d = foldl (\<lambda>sum t. num_add sum (d t)) (Num 0) [Bus, Car, Bike, Cycle, Walking]"

definition zeroEmissionPercentage_num :: "(transport \<Rightarrow> number) \<Rightarrow> number" where
  "zeroEmissionPercentage_num d =
     (let zeroEmissionDistance = num_add (d Cycle) (d Walking);
          total = totalDistance_num d
      in if num_gt total (Num 0)
         then num_mul (num_div zeroEmissionDistance total) (Num 100)
         else Num 0)"

section \<open>Quantities the properties are stated with\<close>

text \<open>The time value of an item's date, for an item whose date is valid.\<close>

definition timeValue :: "date_parser \<Rightarrow> news_item \<Rightarrow> int" where
  "timeValue parse item = compare_value (publishedTime parse item)"

text \<open>The emission factors of the constructor's object literal.\<close>

definition factors_fixed :: "transport_data \<Rightarrow> bool" where
  "factors_fixed td \<longleftrightarrow>
     emission (bus td) = 0.12 \<and> emission (car td) = 0.21 \<and> emission (bike td) = 0.075
     \<and> emission (cycle td) = 0 \<and> emission (walking td) = 0"

section \<open>Sample inputs\<close>

definition sample_item :: "string \<Rightarrow> string \<Rightarrow> news_item" where
  "sample_item t c =
     \<lparr>title = Some t, summary = None, source = None, published = None, link = None,
      category = Some c, image_url = None\<rparr>"

text \<open>Twelve items, three of them (the second, sixth and tenth) of category technology.\<close>

definition sample_items :: "news_item list" where
  "sample_items =
     [sample_item ''n1'' ''policy'', sample_item ''n2'' ''technology'', sample_item ''n3'' ''science'',
      sample_item ''n4'' ''policy'', sample_item ''n5'' ''business'', sample_item ''n6'' ''technology'',
      sample_item ''n7'' ''science'', sample_item ''n8'' ''policy'', sample_item ''n9'' ''business'',
      sample_item ''n10'' ''technology'', sample_item ''n11'' ''science'', sample_item ''n12'' ''policy'']"

definition sample_page :: news_page where
  "sample_page =
     \<lparr>allItems = sample_items, page = 1, pageSize = 9, filteredCategory = ''all'',
      loading = False, reachedEnd = False, grid = Some [], featured = None\<rparr>"

text \<open>The page as the \<^verbatim>\<open>DOMContentLoaded\<close> listener sets it up, before the first fetch.\<close>

definition fresh_page :: news_page where
  "fresh_page =
     \<lparr>allItems = [], page = 0, pageSize = 9, filteredCategory = ''all'',
      loading = False, reachedEnd = False, grid = Some [], featured = None\<rparr>"

definition dated_item :: "string \<Rightarrow> string option \<Rightarrow> news_item" where
  "dated_item t p =
     \<lparr>title = Some t, summary = None, source = None, published = p, link = None,
      category = None, image_url = None\<rparr>"

text \<open>A date parser that knows two dates, with the time values JavaScript gives them, and
  takes every other string for an invalid date.\<close>

definition sample_parser :: date_parser where
  "sample_parser str =
     (if str = ''2024-01-01'' then Some 1704067200000
      else if str = ''2023-06-15'' then Some 1686787200000
      else None)"


definition blank_page :: calculator where
  "blank_page =
     \<lparr>transportData = initial_transportData, slider_value = (\<lambda>t. 0), value_text = (\<lambda>t. 0),
      total_distance_text = 0, emission_text = (\<lambda>t. 0), total_emission_text = 0,
      co2_saved_text = 0, bar_height = (\<lambda>t. 0), strokeDashoffset = 0,
      achievement_text = [], achievement_background = [], tips_section = None\<rparr>"

text \<open>The sliders set to bus 10, car 5, bike 0, cycle 20 and walking 5.\<close>

definition scenario :: calculator where
  "scenario =
     setupSliders_input Walking 5 (setupSliders_input Cycle 20 (setupSliders_input Bike 0
       (setupSliders_input Car 5 (setupSliders_input Bus 10 (new_calculator blank_page)))))"

section \<open>HTML escaping: the chain of replacements is a character-wise encoding\<close>

lemma replace_g_Nil: "replace_g c r [] = []"
  by (simp add: replace_g_def)

lemma replace_g_append: "replace_g c r (xs @ ys) = replace_g c r xs @ replace_g c r ys"
  by (simp add: replace_g_def)

lemma replace_g_Cons: "replace_g c r (x # xs) = (if x = c then r else [x]) @ replace_g c r xs"
  by (simp add: replace_g_def)

lemma escapeHTML_Nil: "escapeHTML [] = []"
  by (simp add: escapeHTML_def replace_g_Nil)

lemma escapeHTML_Cons: "escapeHTML (x # xs) = entity_reference x @ escapeHTML xs"
proof -
  have split: "x # xs = [x] @ xs" by simp
  have one: "escapeHTML [x] = entity_reference x"
    by (simp add: escapeHTML_def entity_reference_def replace_g_def)
  have app: "escapeHTML ([x] @ xs) = escapeHTML [x] @ escapeHTML xs"
    unfolding escapeHTML_def by (simp only: replace_g_append)
  show ?thesis
    using one app by simp
qed

lemma escapeHTML_html_escaped: "escapeHTML str = html_escaped str"
  by (induction str) (simp_all add: escapeHTML_Nil escapeHTML_Cons html_escaped_def)

lemma entity_reference_safe:
  "set (entity_reference c) \<inter> {CHR ''<'', CHR ''>'', CHR 0x22, CHR 0x27} = {}"
  by (auto simp: entity_reference_def)

lemma html_escaped_safe:
  "set (html_escaped str) \<inter> {CHR ''<'', CHR ''>'', CHR 0x22, CHR 0x27} = {}"
  using entity_reference_safe by (fastforce simp: html_escaped_def)

section \<open>C10: what the card markup escapes\<close>

text \<open>
  C10. For every news item, the card markup is the text below: the template of the card
  in which the title (in the heading and in the \<^verbatim>\<open>alt\<close> attribute), the summary, the source
  and the published date stand in their character-wise entity encoding (\<open>&\<close>, \<open><\<close>, \<open>>\<close>,
  double and single quote replaced by their entity references, so that none of \<open><\<close>, \<open>>\<close>
  and the two quotes is left in them), while the link (in the \<^verbatim>\<open>href\<close> attribute) and the
  image URL (in the \<^verbatim>\<open>src\<close> attribute) stand as they are, only defaulted when absent or
  empty. What the case mappings make of the category (the lower-cased category and its
  capitalised form) is left open.
\<close>

theorem renderNewsItem_escapes_text_fields:
  \<open>(\<exists>cat pretty.
     renderNewsItem item =
       ''\<newline>        <article class="news-card" data-category="'' @ cat @ ''">''
       @ ''\<newline>            <a href="'' @ js_or (link item) ''#''
       @ ''" target="_blank" rel="noopener" style="text-decoration:none;color:inherit;">''
       @ ''\<newline>                <div class="news-image">''
       @ ''\<newline>                    ''
       @ (if js_or (image_url item) [] \<noteq> []
          then ''<img src="'' @ js_or (image_url item) [] @ ''" alt="'' @ html_escaped (js_or (title item) [])
               @ ''" onerror="this.style.display='none'"/>''
          else ''<div class="image-placeholder small"><i class="'' @ categoryIcon cat @ ''"></i></div>'')
       @ ''\<newline>                </div>''
       @ ''\<newline>                <div class="news-content">''
       @ ''\<newline>                    <div class="news-category">'' @ pretty
       @ (if html_escaped (js_or (source item) []) \<noteq> []
          then [CHR 0x20, CHR 0xC2, CHR 0xB7, CHR 0x20] @ html_escaped (js_or (source item) [])
          else [])
       @ ''</div>''
       @ ''\<newline>                    <h3>'' @ html_escaped (js_or (title item) []) @ ''</h3>''
       @ ''\<newline>                    <p>'' @ html_escaped (js_or (summary item) []) @ ''</p>''
       @ ''\<newline>                    <div class="news-meta">''
       @ ''\<newline>                        <span class="date">'' @ html_escaped (js_or (published item) []) @ ''</span>''
       @ ''\<newline>                        <span class="read-time">Live</span>''
       @ ''\<newline>                    </div>''
       @ ''\<newline>                </div>''
       @ ''\<newline>            </a>''
       @ ''\<newline>        </article>''
       @ ''\<newline>    '')
   \<and> set (html_escaped (js_or (source item) [])) \<inter> {CHR ''<'', CHR ''>'', CHR 0x22, CHR 0x27} = {}
   \<and> set (html_escaped (js_or (title item) [])) \<inter> {CHR ''<'', CHR ''>'', CHR 0x22, CHR 0x27} = {}
   \<and> set (html_escaped (js_or (summary item) [])) \<inter> {CHR ''<'', CHR ''>'', CHR 0x22, CHR 0x27} = {}
   \<and> set (html_escaped (js_or (published item) [])) \<inter> {CHR ''<'', CHR ''>'', CHR 0x22, CHR 0x27} = {}\<close>
proof -
  let ?cat = "toLowerCase (js_or (category item) ''other'')"
  have markup: \<open>renderNewsItem item =
       ''\<newline>        <article class="news-card" data-category="'' @ ?cat @ ''">''
       @ ''\<newline>            <a href="'' @ js_or (link item) ''#''
       @ ''" target="_blank" rel="noopener" style="text-decoration:none;color:inherit;">''
       @ ''\<newline>                <div class="news-image">''
       @ ''\<newline>                    ''
       @ (if js_or (image_url item) [] \<noteq> []
          then ''<img src="'' @ js_or (image_url item) [] @ ''" alt="'' @ html_escaped (js_or (title item) [])
               @ ''" onerror="this.style.display='none'"/>''
          else ''<div class="image-placeholder small"><i class="'' @ categoryIcon ?cat @ ''"></i></div>'')
       @ ''\<newline>                </div>''
       @ ''\<newline>                <div class="news-content">''
       @ ''\<newline>                    <div class="news-category">'' @ prettyCategory ?cat
       @ (if html_escaped (js_or (source item) []) \<noteq> []
          then [CHR 0x20, CHR 0xC2, CHR 0xB7, CHR 0x20] @ html_escaped (js_or (source item) [])
          else [])
       @ ''</div>''
       @ ''\<newline>                    <h3>'' @ html_escaped (js_or (title item) []) @ ''</h3>''
       @ ''\<newline>                    <p>'' @ html_escaped (js_or (summary item) []) @ ''</p>''
       @ ''\<newline>                    <div class="news-meta">''
       @ ''\<newline>                        <span class="date">'' @ html_escaped (js_or (published item) []) @ ''</span>''
       @ ''\<newline>                        <span class="read-time">Live</span>''
       @ ''\<newline>                    </div>''
       @ ''\<newline>                </div>''
       @ ''\<newline>            </a>''
       @ ''\<newline>        </article>''
       @ ''\<newline>    ''\<close>
    by (simp add: renderNewsItem_def Let_def card_markup_def escapeHTML_html_escaped)
  have open_parts: \<open>\<exists>cat pretty.
     renderNewsItem item =
       ''\<newline>        <article class="news-card" data-category="'' @ cat @ ''">''
       @ ''\<newline>            <a href="'' @ js_or (link item) ''#''
       @ ''" target="_blank" rel="noopener" style="text-decoration:none;color:inherit;">''
       @ ''\<newline>                <div class="news-image">''
       @ ''\<newline>                    ''
       @ (if js_or (image_url item) [] \<noteq> []
          then ''<img src="'' @ js_or (image_url item) [] @ ''" alt="'' @ html_escaped (js_or (title item) [])
               @ ''" onerror="this.style.display='none'"/>''
          else ''<div class="image-placeholder small"><i class="'' @ categoryIcon cat @ ''"></i></div>'')
       @ ''\<newline>                </div>''
       @ ''\<newline>                <div class="news-content">''
       @ ''\<newline>                    <div class="news-category">'' @ pretty
       @ (if html_escaped (js_or (source item) []) \<noteq> []
          then [CHR 0x20, CHR 0xC2, CHR 0xB7, CHR 0x20] @ html_escaped (js_or (source item) [])
          else [])
       @ ''</div>''
       @ ''\<newline>                    <h3>'' @ html_escaped (js_or (title item) []) @ ''</h3>''
       @ ''\<newline>                    <p>'' @ html_escaped (js_or (summary item) []) @ ''</p>''
       @ ''\<newline>                    <div class="news-meta">''
       @ ''\<newline>                        <span class="date">'' @ html_escaped (js_or (published item) []) @ ''</span>''
       @ ''\<newline>                        <span class="read-time">Live</span>''
       @ ''\<newline>                    </div>''
       @ ''\<newline>                </div>''
       @ ''\<newline>            </a>''
       @ ''\<newline>        </article>''
       @ ''\<newline>    ''\<close>
    using markup by blast
  show ?thesis
    using open_parts by (simp add: html_escaped_safe)
qed



theorem renderNewsItem_escapes_text_fields_witness:
  \<open>renderNewsItem
     \<lparr>title = Some ''Tom & <Jerry>'', summary = Some ''it's'', source = Some ''"A"'',
        published = Some ''2024-01-01'', link = Some ''/a?x&y="<'', category = Some ''Policy'',
        image_url = Some ''i">''\<rparr>
   = ''\<newline>        <article class="news-card" data-category="policy">''
     @ ''\<newline>            <a href="/a?x&y="<" target="_blank" rel="noopener" style="text-decoration:none;color:inherit;">''
     @ ''\<newline>                <div class="news-image">''
     @ ''\<newline>                    <img src="i">" alt="Tom &amp; &lt;Jerry&gt;" onerror="this.style.display='none'"/>''
     @ ''\<newline>                </div>''
     @ ''\<newline>                <div class="news-content">''
     @ ''\<newline>                    <div class="news-category">Policy '' @ [CHR 0xC2, CHR 0xB7] @ '' &quot;A&quot;</div>''
     @ ''\<newline>                    <h3>Tom &amp; &lt;Jerry&gt;</h3>''
     @ ''\<newline>                    <p>it&#039;s</p>''
     @ ''\<newline>                    <div class="news-meta">''
     @ ''\<newline>                        <span class="date">2024-01-01</span>''
     @ ''\<newline>                        <span class="read-time">Live</span>''
     @ ''\<newline>                    </div>''
     @ ''\<newline>                </div>''
     @ ''\<newline>            </a>''
     @ ''\<newline>        </article>''
     @ ''\<newline>    ''
   \<and> set (html_escaped ''Tom & <Jerry>'') \<inter> {CHR ''<'', CHR ''>'', CHR 0x22, CHR 0x27} = {}\<close>
proof -
  let ?item = \<open>\<lparr>title = Some ''Tom & <Jerry>'', summary = Some ''it's'', source = Some ''"A"'',
        published = Some ''2024-01-01'', link = Some ''/a?x&y="<'', category = Some ''Policy'',
        image_url = Some ''i">''\<rparr>\<close>
  have lower: "toLowerCase ''Policy'' = ''policy''"
    by code_simp
  have pretty: "prettyCategory ''policy'' = ''Policy''"
    by code_simp
  have fields: \<open>renderNewsItem ?item
      = card_markup ''policy'' ''fas fa-gavel'' ''&quot;A&quot;'' ''Tom &amp; &lt;Jerry&gt;''
          ''it&#039;s'' ''/a?x&y="<'' ''2024-01-01'' ''i">''\<close>
    by (simp add: renderNewsItem_def Let_def escapeHTML_html_escaped html_escaped_def
        entity_reference_def js_or_def lower categoryIcon_def)
  have card: \<open>card_markup ''policy'' ''fas fa-gavel'' ''&quot;A&quot;'' ''Tom &amp; &lt;Jerry&gt;''
          ''it&#039;s'' ''/a?x&y="<'' ''2024-01-01'' ''i">''
      = ''\<newline>        <article class="news-card" data-category="policy">''
     @ ''\<newline>            <a href="/a?x&y="<" target="_blank" rel="noopener" style="text-decoration:none;color:inherit;">''
     @ ''\<newline>                <div class="news-image">''
     @ ''\<newline>                    <img src="i">" alt="Tom &amp; &lt;Jerry&gt;" onerror="this.style.display='none'"/>''
     @ ''\<newline>                </div>''
     @ ''\<newline>                <div class="news-content">''
     @ ''\<newline>                    <div class="news-category">Policy '' @ [CHR 0xC2, CHR 0xB7] @ '' &quot;A&quot;</div>''
     @ ''\<newline>                    <h3>Tom &amp; &lt;Jerry&gt;</h3>''
     @ ''\<newline>                    <p>it&#039;s</p>''
     @ ''\<newline>                    <div class="news-meta">''
     @ ''\<newline>                        <span class="date">2024-01-01</span>''
     @ ''\<newline>                        <span class="read-time">Live</span>''
     @ ''\<newline>                    </div>''
     @ ''\<newline>                </div>''
     @ ''\<newline>            </a>''
     @ ''\<newline>        </article>''
     @ ''\<newline>    ''\<close>
    by (simp add: card_markup_def pretty)
  have safe: \<open>set (html_escaped (js_or (title ?item) [])) \<inter> {CHR ''<'', CHR ''>'', CHR 0x22, CHR 0x27} = {}\<close>
    using renderNewsItem_escapes_text_fields[of ?item] by (elim conjE)
  have title: \<open>js_or (title ?item) [] = ''Tom & <Jerry>''\<close>
    by (simp add: js_or_def)
  have safe_title: \<open>set (html_escaped ''Tom & <Jerry>'') \<inter> {CHR ''<'', CHR ''>'', CHR 0x22, CHR 0x27} = {}\<close>
    using safe by (simp only: title)
  show ?thesis
    using trans[OF fields card] safe_title by (rule conjI)
qed

section \<open>The news feed: pages\<close>

lemma sample_filter:
  "filter (\<lambda>i. js_or (category i) ''other'' = ''technology'') sample_items
     = [sample_item ''n2'' ''technology'', sample_item ''n6'' ''technology'',
        sample_item ''n10'' ''technology'']"
  by (simp add: sample_items_def sample_item_def js_or_def)

lemma length_sample_items: "length sample_items = 12"
  by (simp add: sample_items_def)

text \<open>
  C1, as the code has it. Let a category other than \<open>all\<close> be selected on a page with a
  grid, and let the items matching it be at least one and at most a page (three of twelve
  with a page size of nine, say). Then the call of \<^verbatim>\<open>renderNextPage\<close> made by the
  filter change renders exactly the matching items, in order, moves the cursor to page 1
  and leaves the flag \<open>reachedEnd\<close> false; the flag becomes true in the next call of
  \<^verbatim>\<open>renderNextPage\<close>, which finds an empty page and changes nothing else.
\<close>

theorem setCategory_renders_matching_page:
  assumes "grid s \<noteq> None" and "c \<noteq> ''all''"
    and "matching = filter (\<lambda>i. js_or (category i) ''other'' = c) (allItems s)"
    and "matching \<noteq> []" and "length matching \<le> pageSize s"
  shows "grid (setCategory c s) = Some (concat (map renderNewsItem matching))
       \<and> page (setCategory c s) = 1
       \<and> \<not> reachedEnd (setCategory c s)
       \<and> renderNextPage (setCategory c s) = (setCategory c s)\<lparr>reachedEnd := True\<rparr>"
proof -
  obtain g where g: "grid s = Some g"
    using assms(1) by auto
  have size: "pageSize s \<noteq> 0"
    using assms(4,5) by (cases matching) auto
  have first: "setCategory c s =
      s\<lparr>filteredCategory := c, page := 1, reachedEnd := False,
        grid := Some (concat (map renderNewsItem matching))\<rparr>"
    using assms(2-5) g size by (simp add: setCategory_def renderNextPage_def Let_def)
  have "renderNextPage (s\<lparr>filteredCategory := c, page := 1, reachedEnd := False,
        grid := Some (concat (map renderNewsItem matching))\<rparr>)
      = s\<lparr>filteredCategory := c, page := 1, reachedEnd := True,
        grid := Some (concat (map renderNewsItem matching))\<rparr>"
    using assms(2-5) by (simp add: renderNextPage_def Let_def)
  then show ?thesis
    by (simp add: first)
qed

text \<open>The sample feed: twelve items, three of technology, nine to a page.\<close>

theorem setCategory_renders_matching_page_witness:
  "grid (setCategory ''technology'' sample_page)
     = Some (concat (map renderNewsItem
         [sample_item ''n2'' ''technology'', sample_item ''n6'' ''technology'',
          sample_item ''n10'' ''technology'']))
   \<and> page (setCategory ''technology'' sample_page) = 1
   \<and> \<not> reachedEnd (setCategory ''technology'' sample_page)
   \<and> renderNextPage (setCategory ''technology'' sample_page)
       = (setCategory ''technology'' sample_page)\<lparr>reachedEnd := True\<rparr>"
proof -
  let ?m = "[sample_item ''n2'' ''technology'', sample_item ''n6'' ''technology'',
             sample_item ''n10'' ''technology'']"
  have 1: "grid sample_page \<noteq> None"
    by (simp add: sample_page_def)
  have 2: "''technology'' \<noteq> ''all''"
    by simp
  have 3: "?m = filter (\<lambda>i. js_or (category i) ''other'' = ''technology'') (allItems sample_page)"
    by (simp add: sample_page_def sample_filter)
  have 4: "?m \<noteq> []"
    by simp
  have 5: "length ?m \<le> pageSize sample_page"
    by (simp add: sample_page_def)
  show ?thesis
    by (rule setCategory_renders_matching_page[OF 1 2 3 4 5])
qed

text \<open>
  C1 as stated fails: on the sample feed of twelve items, three of them of technology,
  with nine to a page, the flag \<open>reachedEnd\<close> is false after the filter change.
\<close>

theorem setCategory_not_exhausted_counterexample:
  "length (allItems sample_page) = 12
   \<and> length (filter (\<lambda>i. js_or (category i) ''other'' = ''technology'') (allItems sample_page)) = 3
   \<and> pageSize sample_page = 9
   \<and> \<not> reachedEnd (setCategory ''technology'' sample_page)"
proof -
  have "\<not> reachedEnd (setCategory ''technology'' sample_page)"
    by (simp add: setCategory_def renderNextPage_def Let_def sample_page_def sample_filter)
  then show ?thesis
    by (simp add: sample_page_def sample_filter length_sample_items)
qed

text \<open>
  C5, as the code has it. \<^verbatim>\<open>renderNextPage\<close> changes nothing when the flag \<open>reachedEnd\<close>
  is set. The scroll listener changes nothing when \<open>reachedEnd\<close> is set or a fetch is in
  flight (\<open>loading\<close>): the guard on \<open>loading\<close> is the listener's, not
  \<^verbatim>\<open>renderNextPage\<close>'s.
\<close>

theorem renderNextPage_exhausted_noop:
  "(reachedEnd s \<longrightarrow> renderNextPage s = s)
   \<and> (loading s \<or> reachedEnd s \<longrightarrow> onScroll innerHeight scrollY offsetHeight s = s)"
  by (simp add: renderNextPage_def onScroll_def split: option.splits)

theorem renderNextPage_exhausted_noop_witness:
  "renderNextPage (sample_page\<lparr>reachedEnd := True\<rparr>) = sample_page\<lparr>reachedEnd := True\<rparr>
   \<and> onScroll 800 5000 5200 (sample_page\<lparr>loading := True\<rparr>) = sample_page\<lparr>loading := True\<rparr>
   \<and> onScroll 800 5000 5200 (sample_page\<lparr>reachedEnd := True\<rparr>) = sample_page\<lparr>reachedEnd := True\<rparr>"
  using renderNextPage_exhausted_noop[of "sample_page\<lparr>reachedEnd := True\<rparr>" 800 5000 5200]
    renderNextPage_exhausted_noop[of "sample_page\<lparr>loading := True\<rparr>" 800 5000 5200]
  by simp

text \<open>
  C5 as stated fails for a fetch in flight: with \<open>loading\<close> set and \<open>reachedEnd\<close> not,
  \<^verbatim>\<open>renderNextPage\<close> renders a page and moves the cursor. (This is how
  \<^verbatim>\<open>fetchLiveNews\<close> renders the first page: it calls \<^verbatim>\<open>renderNextPage\<close> before it clears
  \<open>loading\<close>.)
\<close>

theorem renderNextPage_loading_counterexample:
  "loading (sample_page\<lparr>loading := True\<rparr>)
   \<and> page (renderNextPage (sample_page\<lparr>loading := True\<rparr>)) = 2
   \<and> page (sample_page\<lparr>loading := True\<rparr>) = 1
   \<and> grid (renderNextPage (sample_page\<lparr>loading := True\<rparr>)) \<noteq> grid (sample_page\<lparr>loading := True\<rparr>)"
proof -
  have items: "take 9 (drop 9 sample_items)
      = [sample_item ''n10'' ''technology'', sample_item ''n11'' ''science'', sample_item ''n12'' ''policy'']"
    by (simp add: sample_items_def)
  have nonempty: "renderNewsItem i \<noteq> []" for i
    by (simp add: renderNewsItem_def Let_def card_markup_def)
  show ?thesis
    by (simp add: sample_page_def renderNextPage_def Let_def items nonempty length_sample_items)
qed

section \<open>The news feed: fetching\<close>

lemma renderNewsItem_nth10: "(renderNewsItem i @ r) ! 10 = CHR ''a''"
  by (simp add: renderNewsItem_def Let_def card_markup_def)

lemma errorStateHTML_nth10: "errorStateHTML ! 10 = CHR ''d''"
  by (simp add: errorStateHTML_def)

lemma empty_not_error: "emptyStateHTML \<noteq> errorStateHTML"
  by (simp add: errorStateHTML_def emptyStateHTML_def)

lemma cards_not_error:
  assumes "xs \<noteq> []"
  shows "concat (map renderNewsItem xs) \<noteq> errorStateHTML"
proof -
  obtain x ys where xs: "xs = x # ys"
    using assms by (cases xs) auto
  have "concat (map renderNewsItem xs) ! 10 = CHR ''a''"
    by (simp add: xs renderNewsItem_nth10)
  then show ?thesis
    using errorStateHTML_nth10 by auto
qed

lemma renderNextPage_first_not_error:
  assumes "page s = 0" and "\<not> reachedEnd s" and "grid s \<noteq> None"
  shows "grid (renderNextPage s) \<noteq> Some errorStateHTML"
proof -
  obtain g where g: "grid s = Some g"
    using assms(3) by auto
  let ?items = "take (pageSize s) (drop (page s * pageSize s)
      (if filteredCategory s = ''all'' then allItems s
       else filter (\<lambda>i. js_or (category i) ''other'' = filteredCategory s) (allItems s)))"
  show ?thesis
  proof (cases "?items = []")
    case True
    then have "grid (renderNextPage s) = Some emptyStateHTML"
      using assms(1,2) g by (simp add: renderNextPage_def Let_def)
    then show ?thesis
      by (simp add: empty_not_error)
  next
    case False
    then have "grid (renderNextPage s) = Some (concat (map renderNewsItem ?items))"
      using assms(1,2) g by (simp add: renderNextPage_def Let_def)
    then show ?thesis
      using cards_not_error[OF False] by simp
  qed
qed

text \<open>
  C7, as the code has it. Let the page have a grid and no fetch in flight. When the request
  succeeds with an empty list of items, the feed sets \<open>reachedEnd\<close> and shows the empty
  state, not the error state. The error state is shown when the request is rejected and
  when the status is not a success, and also when the body of a successful response is
  not JSON or is null. It is not shown for a successful response whose body is a JSON
  value with a list of well-formed news items, or with no list.
\<close>

theorem fetchLiveNews_empty_and_error:
  assumes "grid s \<noteq> None" and "\<not> loading s"
  shows "(ok status \<longrightarrow>
            reachedEnd (fetchLiveNews initial parse sorter (Response status (Json (Some []))) s)
          \<and> grid (fetchLiveNews initial parse sorter (Response status (Json (Some []))) s) = Some emptyStateHTML
          \<and> grid (fetchLiveNews initial parse sorter (Response status (Json (Some []))) s) \<noteq> Some errorStateHTML)
       \<and> (r = Rejected
            \<or> (\<exists>st body. r = Response st body \<and> (\<not> ok st \<or> body = NotJson \<or> body = JsonNull))
          \<longrightarrow> grid (fetchLiveNews initial parse sorter r s) = Some errorStateHTML)
       \<and> ((\<exists>st data_items. r = Response st (Json data_items) \<and> ok st)
          \<longrightarrow> grid (fetchLiveNews initial parse sorter r s) \<noteq> Some errorStateHTML)"
proof -
  let ?b = "fetchLiveNews_begin initial s"
  have b: "grid ?b \<noteq> None"
    using assms by (simp add: fetchLiveNews_begin_def Let_def)
  have unfold: "fetchLiveNews initial parse sorter q s = fetchLiveNews_settle parse sorter q ?b" for q
    using assms by (auto simp: fetchLiveNews_def)
  have first: "grid (renderNextPage (renderFeatured f (?b\<lparr>allItems := xs, page := 0, reachedEnd := False\<rparr>)))
                 \<noteq> Some errorStateHTML" for f xs
    using b by (intro renderNextPage_first_not_error) (simp_all add: renderFeatured_def split: option.splits)
  have empty: "ok status \<longrightarrow>
            reachedEnd (fetchLiveNews_settle parse sorter (Response status (Json (Some []))) ?b)
          \<and> grid (fetchLiveNews_settle parse sorter (Response status (Json (Some []))) ?b) = Some emptyStateHTML
          \<and> grid (fetchLiveNews_settle parse sorter (Response status (Json (Some []))) ?b) \<noteq> Some errorStateHTML"
    by (simp add: fetchLiveNews_settle_def Let_def empty_not_error)
  have failing: "grid (fetchLiveNews_settle parse sorter r ?b) = Some errorStateHTML"
    if "r = Rejected
        \<or> (\<exists>st body. r = Response st body \<and> (\<not> ok st \<or> body = NotJson \<or> body = JsonNull))"
    using that by (auto simp: fetchLiveNews_settle_def Let_def)
  have listed: "grid (fetchLiveNews_settle parse sorter r ?b) \<noteq> Some errorStateHTML"
    if success: "\<exists>st data_items. r = Response st (Json data_items) \<and> ok st"
  proof -
    obtain st data_items where r: "r = Response st (Json data_items)" and st: "ok st"
      using success by blast
    show ?thesis
      using first st by (simp add: r fetchLiveNews_settle_def Let_def empty_not_error)
  qed
  show ?thesis
    using empty failing listed by (simp only: unfold) blast
qed

theorem fetchLiveNews_empty_and_error_witness:
  "reachedEnd (fetchLiveNews True sample_parser insertion_sort (Response 200 (Json (Some []))) fresh_page)
   \<and> grid (fetchLiveNews True sample_parser insertion_sort (Response 200 (Json (Some []))) fresh_page) = Some emptyStateHTML
   \<and> grid (fetchLiveNews True sample_parser insertion_sort (Response 404 (Json (Some []))) fresh_page) = Some errorStateHTML
   \<and> grid (fetchLiveNews True sample_parser insertion_sort Rejected fresh_page) = Some errorStateHTML
   \<and> grid (fetchLiveNews True sample_parser insertion_sort (Response 200 (Json (Some sample_items))) fresh_page)
       \<noteq> Some errorStateHTML"
proof -
  have 1: "grid fresh_page \<noteq> None" and 2: "\<not> loading fresh_page"
    by (simp_all add: fresh_page_def)
  have 3: "ok 200" and 4: "\<not> ok 404"
    by (simp_all add: ok_def)
  show ?thesis
    using fetchLiveNews_empty_and_error[OF 1 2, of 200 True sample_parser insertion_sort Rejected]
      fetchLiveNews_empty_and_error[OF 1 2, of 200 True sample_parser insertion_sort "Response 404 (Json (Some []))"]
      fetchLiveNews_empty_and_error[OF 1 2, of 200 True sample_parser insertion_sort "Response 200 (Json (Some sample_items))"]
      3 4
    by simp
qed

text \<open>
  C7 as stated fails in its last part: a response with the success status 200 whose body
  is not JSON puts the feed in the error state, with neither a non-success status nor a
  transport failure.
\<close>

theorem fetchLiveNews_badjson_counterexample:
  "ok 200 \<and> grid (fetchLiveNews True sample_parser insertion_sort (Response 200 NotJson) fresh_page) = Some errorStateHTML"
  by (simp add: ok_def fetchLiveNews_def fetchLiveNews_begin_def fetchLiveNews_settle_def Let_def
      fresh_page_def)

section \<open>The news feed: the order of the stored items\<close>

subsection \<open>The insertion sort is a sort function as the language requires\<close>

lemma consistent_flip:
  assumes "consistent_comparator f S" and "a \<in> S" and "b \<in> S"
    and "compare_value (f a b) > 0"
  shows "compare_value (f b a) < 0"
proof (rule ccontr)
  assume "\<not> compare_value (f b a) < 0"
  then consider "compare_value (f b a) = 0" | "compare_value (f b a) > 0"
    by linarith
  then show False
  proof cases
    case 1
    then have "compare_value (f a b) = 0"
      using assms(1-3) unfolding consistent_comparator_def by blast
    then show False using assms(4) by simp
  next
    case 2
    then have "compare_value (f a a) > 0"
      using assms unfolding consistent_comparator_def by blast
    moreover have "compare_value (f a a) = 0"
      using assms(1,2) unfolding consistent_comparator_def by blast
    ultimately show False by simp
  qed
qed

lemma consistent_flip_less:
  assumes "consistent_comparator f S" and "a \<in> S" and "b \<in> S"
    and "compare_value (f a b) < 0"
  shows "compare_value (f b a) > 0"
proof (rule ccontr)
  assume "\<not> compare_value (f b a) > 0"
  then consider "compare_value (f b a) = 0" | "compare_value (f b a) < 0"
    by linarith
  then show False
  proof cases
    case 1
    then have "compare_value (f a b) = 0"
      using assms(1-3) unfolding consistent_comparator_def by blast
    then show False using assms(4) by simp
  next
    case 2
    then have "compare_value (f a a) < 0"
      using assms unfolding consistent_comparator_def by blast
    moreover have "compare_value (f a a) = 0"
      using assms(1,2) unfolding consistent_comparator_def by blast
    ultimately show False by simp
  qed
qed

lemma consistent_le_trans:
  assumes c: "consistent_comparator f S" and a: "a \<in> S" and b: "b \<in> S" and d: "d \<in> S"
    and ab: "compare_value (f a b) \<le> 0" and bd: "compare_value (f b d) \<le> 0"
  shows "compare_value (f a d) \<le> 0"
proof (rule ccontr)
  assume "\<not> compare_value (f a d) \<le> 0"
  then have ad: "compare_value (f a d) > 0"
    by simp
  have da: "compare_value (f d a) < 0"
    using consistent_flip[OF c a d ad] .
  consider "compare_value (f a b) < 0" | "compare_value (f a b) = 0"
    using ab by linarith
  then show False
  proof cases
    case 1
    then have db: "compare_value (f d b) < 0"
      using c a b d da unfolding consistent_comparator_def by blast
    have "compare_value (f b d) > 0"
      using consistent_flip_less[OF c d b db] .
    then show False using bd by simp
  next
    case 2
    then have ba: "compare_value (f b a) = 0"
      using c a b unfolding consistent_comparator_def by blast
    consider "compare_value (f b d) < 0" | "compare_value (f b d) = 0"
      using bd by linarith
    then show False
    proof cases
      case 1
      then have "compare_value (f d b) > 0"
        using consistent_flip_less[OF c b d] by simp
      then have "compare_value (f a b) > 0"
        using c a b d ad unfolding consistent_comparator_def by blast
      then show False using 2 by simp
    next
      case 2
      then have "compare_value (f a d) = 0"
        using c a b d \<open>compare_value (f a b) = 0\<close> unfolding consistent_comparator_def by blast
      then show False using ad by simp
    qed
  qed
qed

lemma mset_insert_sorted: "mset (insert_sorted f x ys) = add_mset x (mset ys)"
  by (induction ys) simp_all

lemma set_insert_sorted: "set (insert_sorted f x ys) = insert x (set ys)"
  by (induction ys) auto

lemma sorted_insert_sorted:
  assumes c: "consistent_comparator f S" and x: "x \<in> S" and ys: "set ys \<subseteq> S"
    and s: "sorted_wrt (\<lambda>a b. compare_value (f a b) \<le> 0) ys"
  shows "sorted_wrt (\<lambda>a b. compare_value (f a b) \<le> 0) (insert_sorted f x ys)"
  using ys s
proof (induction ys)
  case Nil
  then show ?case by simp
next
  case (Cons y ys)
  have y: "y \<in> S" and sub: "set ys \<subseteq> S"
    using Cons.prems(1) by auto
  show ?case
  proof (cases "compare_value (f x y) \<le> 0")
    case True
    have "compare_value (f x z) \<le> 0" if "z \<in> set ys" for z
    proof -
      have "compare_value (f y z) \<le> 0"
        using Cons.prems(2) that by simp
      moreover have "z \<in> S"
        using sub that by blast
      ultimately show ?thesis
        using consistent_le_trans[OF c x y _ True] by blast
    qed
    then show ?thesis
      using True Cons.prems(2) by auto
  next
    case False
    then have "compare_value (f y x) < 0"
      using consistent_flip[OF c x y] by simp
    moreover have "sorted_wrt (\<lambda>a b. compare_value (f a b) \<le> 0) (insert_sorted f x ys)"
      using Cons.IH sub Cons.prems(2) by simp
    ultimately show ?thesis
      using False Cons.prems(2) by (auto simp: set_insert_sorted)
  qed
qed

lemma filter_insert_sorted:
  assumes c: "consistent_comparator f S" and a: "a \<in> S" and x: "x \<in> S" and ys: "set ys \<subseteq> S"
  shows "filter (\<lambda>b. compare_value (f a b) = 0) (insert_sorted f x ys)
           = filter (\<lambda>b. compare_value (f a b) = 0) (x # ys)"
  using ys
proof (induction ys)
  case Nil
  then show ?case by simp
next
  case (Cons y ys)
  have y: "y \<in> S" and sub: "set ys \<subseteq> S"
    using Cons.prems by auto
  show ?case
  proof (cases "compare_value (f x y) \<le> 0")
    case True
    then show ?thesis by simp
  next
    case False
    then have xy: "compare_value (f x y) > 0"
      by simp
    have not_both: "\<not> (compare_value (f a x) = 0 \<and> compare_value (f a y) = 0)"
    proof
      assume both: "compare_value (f a x) = 0 \<and> compare_value (f a y) = 0"
      then have "compare_value (f x a) = 0"
        using c a x unfolding consistent_comparator_def by blast
      then have "compare_value (f x y) = 0"
        using c a x y both unfolding consistent_comparator_def by blast
      then show False using xy by simp
    qed
    have "filter (\<lambda>b. compare_value (f a b) = 0) (insert_sorted f x (y # ys))
            = filter (\<lambda>b. compare_value (f a b) = 0) (y # insert_sorted f x ys)"
      using False by simp
    also have "\<dots> = filter (\<lambda>b. compare_value (f a b) = 0) (y # x # ys)"
      using Cons.IH[OF sub] by simp
    also have "\<dots> = filter (\<lambda>b. compare_value (f a b) = 0) (x # y # ys)"
      using not_both by auto
    finally show ?thesis .
  qed
qed

lemma insertion_sort_stable_sorted:
  assumes "consistent_comparator f S" and "set xs \<subseteq> S"
  shows "mset (insertion_sort f xs) = mset xs"
    and "sorted_wrt (\<lambda>a b. compare_value (f a b) \<le> 0) (insertion_sort f xs)"
    and "\<forall>a\<in>S. filter (\<lambda>b. compare_value (f a b) = 0) (insertion_sort f xs)
                 = filter (\<lambda>b. compare_value (f a b) = 0) xs"
  using assms(2)
proof (induction xs)
  case Nil
  {
    case 1 show ?case by (simp add: insertion_sort_def)
  next
    case 2 show ?case by (simp add: insertion_sort_def)
  next
    case 3 show ?case by (simp add: insertion_sort_def)
  }
next
  case (Cons x xs)
  have step: "insertion_sort f (x # xs) = insert_sorted f x (insertion_sort f xs)"
    by (simp add: insertion_sort_def)
  {
    case 1
    then have "set xs \<subseteq> S" by simp
    then show ?case
      using Cons.IH(1) by (simp add: step mset_insert_sorted)
  next
    case 2
    then have x: "x \<in> S" and sub: "set xs \<subseteq> S" by simp_all
    have "set (insertion_sort f xs) \<subseteq> S"
      using Cons.IH(1)[OF sub] sub by (metis set_mset_mset)
    then show ?case
      using sorted_insert_sorted[OF assms(1) x _ Cons.IH(2)[OF sub]] by (simp add: step)
  next
    case 3
    then have x: "x \<in> S" and sub: "set xs \<subseteq> S" by simp_all
    have inS: "set (insertion_sort f xs) \<subseteq> S"
      using Cons.IH(1)[OF sub] sub by (metis set_mset_mset)
    show ?case
    proof
      fix a assume a: "a \<in> S"
      have "filter (\<lambda>b. compare_value (f a b) = 0) (insertion_sort f (x # xs))
              = filter (\<lambda>b. compare_value (f a b) = 0) (x # insertion_sort f xs)"
        using filter_insert_sorted[OF assms(1) a x inS] by (simp add: step)
      also have "\<dots> = filter (\<lambda>b. compare_value (f a b) = 0) (x # xs)"
        using Cons.IH(3)[OF sub] a by simp
      finally show "filter (\<lambda>b. compare_value (f a b) = 0) (insertion_sort f (x # xs))
              = filter (\<lambda>b. compare_value (f a b) = 0) (x # xs)" .
    qed
  }
qed

lemma engine_sort_insertion_sort: "engine_sort insertion_sort"
  unfolding engine_sort_def stable_sorted_def
  using insertion_sort_stable_sorted[OF _ subset_refl] by blast

subsection \<open>The comparator of the feed\<close>

lemma compareNewest_parsed:
  assumes "publishedTime parse a \<noteq> None" and "publishedTime parse b \<noteq> None"
  shows "compareNewest parse a b \<noteq> None"
    and "compare_value (compareNewest parse a b) = timeValue parse b - timeValue parse a"
  using assms by (auto simp: compareNewest_def timeValue_def compare_value_def)

lemma compareNewest_consistent:
  assumes "\<forall>i \<in> S. publishedTime parse i \<noteq> None"
  shows "consistent_comparator (compareNewest parse) S"
  unfolding consistent_comparator_def
  using assms by (auto simp: compareNewest_parsed)

lemma allItems_renderNextPage: "allItems (renderNextPage s) = allItems s"
  by (simp add: renderNextPage_def Let_def split: option.splits)

lemma allItems_fetchLiveNews:
  assumes "grid s \<noteq> None" and "\<not> loading s" and "ok status" and "items \<noteq> []"
  shows "allItems (fetchLiveNews initial parse sorter (Response status (Json (Some items))) s)
           = sorter (compareNewest parse) items"
  using assms
  by (auto simp: fetchLiveNews_def fetchLiveNews_settle_def fetchLiveNews_begin_def Let_def
      allItems_renderNextPage renderFeatured_def split: list.splits)

text \<open>
  C4, as the code has it. Let the platform's sort function be as the language requires,
  and let a fetch succeed with a non-empty list of items in which every date is valid (an
  absent or empty date counts as the epoch, time value 0). Then the stored items are a
  permutation of the fetched ones, in descending order of time value, and items of equal
  time value keep their fetched order (the sort is stable); an item without a date has
  the time value 0. For an item whose date is not valid nothing of the kind is said: the
  comparator gives NaN for every pair it is in, in either order, so it does not rank the
  item as oldest.
\<close>

theorem fetchLiveNews_sorts_newest_first:
  assumes "engine_sort sorter"
    and "grid s \<noteq> None" and "\<not> loading s" and "ok status" and "items \<noteq> []"
    and "\<forall>i \<in> set items. publishedTime parse i \<noteq> None"
  shows "mset (allItems (fetchLiveNews initial parse sorter (Response status (Json (Some items))) s))
           = mset items
    \<and> sorted_wrt (\<lambda>a b. timeValue parse a \<ge> timeValue parse b)
         (allItems (fetchLiveNews initial parse sorter (Response status (Json (Some items))) s))
    \<and> (\<forall>t. filter (\<lambda>i. timeValue parse i = t)
              (allItems (fetchLiveNews initial parse sorter (Response status (Json (Some items))) s))
            = filter (\<lambda>i. timeValue parse i = t) items)
    \<and> (\<forall>i. published i = None \<or> published i = Some [] \<longrightarrow> publishedTime parse i = Some 0)
    \<and> (\<forall>a b. publishedTime parse a = None
           \<longrightarrow> compareNewest parse a b = None \<and> compareNewest parse b a = None)"
proof -
  let ?f = "compareNewest parse"
  let ?ys = "sorter ?f items"
  have stored: "allItems (fetchLiveNews initial parse sorter (Response status (Json (Some items))) s) = ?ys"
    using assms(2-5) by (rule allItems_fetchLiveNews)
  have "consistent_comparator ?f (set items)"
    using assms(6) by (rule compareNewest_consistent)
  then have sorted: "stable_sorted ?f items ?ys"
    using assms(1) unfolding engine_sort_def by blast
  have perm: "mset ?ys = mset items"
    using sorted unfolding stable_sorted_def by blast
  then have same: "set ?ys = set items"
    by (metis set_mset_mset)
  have valid: "publishedTime parse i \<noteq> None" if "i \<in> set ?ys" for i
    using that same assms(6) by blast
  have "sorted_wrt (\<lambda>a b. compare_value (?f a b) \<le> 0) ?ys"
    using sorted unfolding stable_sorted_def by blast
  then have desc: "sorted_wrt (\<lambda>a b. timeValue parse a \<ge> timeValue parse b) ?ys"
  proof (rule sorted_wrt_mono_rel[rotated])
    fix a b assume "a \<in> set ?ys" and "b \<in> set ?ys" and "compare_value (?f a b) \<le> 0"
    then show "timeValue parse a \<ge> timeValue parse b"
      using compareNewest_parsed(2)[OF valid valid, of a b] by simp
  qed
  have stable: "filter (\<lambda>i. timeValue parse i = t) ?ys = filter (\<lambda>i. timeValue parse i = t) items" for t
  proof (cases "\<exists>a \<in> set items. timeValue parse a = t")
    case True
    then obtain a where a: "a \<in> set items" and t: "timeValue parse a = t"
      by blast
    have same_time: "compare_value (?f a b) = 0 \<longleftrightarrow> timeValue parse b = t" if "b \<in> set items" for b
      using compareNewest_parsed(2)[of parse a b] assms(6) a that t by auto
    have "filter (\<lambda>i. timeValue parse i = t) ?ys = filter (\<lambda>b. compare_value (?f a b) = 0) ?ys"
      using same_time same by (intro filter_cong) auto
    also have "\<dots> = filter (\<lambda>b. compare_value (?f a b) = 0) items"
      using sorted a unfolding stable_sorted_def by blast
    also have "\<dots> = filter (\<lambda>i. timeValue parse i = t) items"
      using same_time by (intro filter_cong) auto
    finally show ?thesis .
  next
    case False
    then have "filter (\<lambda>i. timeValue parse i = t) items = []"
      by (auto simp: filter_empty_conv)
    moreover have "filter (\<lambda>i. timeValue parse i = t) ?ys = []"
      using False same by (auto simp: filter_empty_conv)
    ultimately show ?thesis
      by simp
  qed
  have epoch: "\<forall>i. published i = None \<or> published i = Some [] \<longrightarrow> publishedTime parse i = Some 0"
    by (auto simp: publishedTime_def)
  have nan: "\<forall>a b. publishedTime parse a = None
           \<longrightarrow> compareNewest parse a b = None \<and> compareNewest parse b a = None"
    by (auto simp: compareNewest_def split: option.splits)
  show ?thesis
    using perm desc stable epoch nan by (simp only: stored) blast
qed

text \<open>An undated item, an item of 2024 and an item of 2023, fetched in this order, and
  the insertion sort for the platform's sort function.\<close>

theorem fetchLiveNews_sorts_newest_first_witness:
  "mset (allItems (fetchLiveNews True sample_parser insertion_sort
           (Response 200 (Json (Some [dated_item ''c'' None, dated_item ''b'' (Some ''2024-01-01''),
              dated_item ''d'' (Some ''2023-06-15'')]))) fresh_page))
     = mset [dated_item ''c'' None, dated_item ''b'' (Some ''2024-01-01''),
             dated_item ''d'' (Some ''2023-06-15'')]
   \<and> sorted_wrt (\<lambda>a b. timeValue sample_parser a \<ge> timeValue sample_parser b)
        (allItems (fetchLiveNews True sample_parser insertion_sort
           (Response 200 (Json (Some [dated_item ''c'' None, dated_item ''b'' (Some ''2024-01-01''),
              dated_item ''d'' (Some ''2023-06-15'')]))) fresh_page))
   \<and> allItems (fetchLiveNews True sample_parser insertion_sort
           (Response 200 (Json (Some [dated_item ''c'' None, dated_item ''b'' (Some ''2024-01-01''),
              dated_item ''d'' (Some ''2023-06-15'')]))) fresh_page)
     = [dated_item ''b'' (Some ''2024-01-01''), dated_item ''d'' (Some ''2023-06-15''),
        dated_item ''c'' None]"
proof -
  let ?items = "[dated_item ''c'' None, dated_item ''b'' (Some ''2024-01-01''),
                 dated_item ''d'' (Some ''2023-06-15'')]"
  have 1: "grid fresh_page \<noteq> None" and 2: "\<not> loading fresh_page"
    by (simp_all add: fresh_page_def)
  have 3: "ok 200"
    by (simp add: ok_def)
  have 4: "?items \<noteq> []"
    by simp
  have 5: "\<forall>i \<in> set ?items. publishedTime sample_parser i \<noteq> None"
    by (simp add: publishedTime_def dated_item_def sample_parser_def)
  have order: "insertion_sort (compareNewest sample_parser) ?items
      = [dated_item ''b'' (Some ''2024-01-01''), dated_item ''d'' (Some ''2023-06-15''),
         dated_item ''c'' None]"
    by (simp add: insertion_sort_def compareNewest_def publishedTime_def dated_item_def
        sample_parser_def compare_value_def)
  have stored: "allItems (fetchLiveNews True sample_parser insertion_sort
        (Response 200 (Json (Some ?items))) fresh_page)
      = [dated_item ''b'' (Some ''2024-01-01''), dated_item ''d'' (Some ''2023-06-15''),
         dated_item ''c'' None]"
    using allItems_fetchLiveNews[OF 1 2 3 4] order by simp
  show ?thesis
    using fetchLiveNews_sorts_newest_first[OF engine_sort_insertion_sort 1 2 3 4 5, of True] stored
    by blast
qed

text \<open>
  C4 as stated fails for a date that cannot be parsed: the comparator gives NaN for the
  pair, which the sort reads as equal, and a stable sort (here the insertion sort) leaves
  the item with the invalid date where it was fetched, in front of an item of 2024.
\<close>

theorem fetchLiveNews_unparsable_first_counterexample:
  "publishedTime sample_parser (dated_item ''a'' (Some ''soon'')) = None
   \<and> publishedTime sample_parser (dated_item ''b'' (Some ''2024-01-01'')) = Some 1704067200000
   \<and> compareNewest sample_parser (dated_item ''a'' (Some ''soon''))
        (dated_item ''b'' (Some ''2024-01-01'')) = None
   \<and> compareNewest sample_parser (dated_item ''b'' (Some ''2024-01-01''))
        (dated_item ''a'' (Some ''soon'')) = None
   \<and> allItems (fetchLiveNews True sample_parser insertion_sort
        (Response 200 (Json (Some [dated_item ''a'' (Some ''soon''),
           dated_item ''b'' (Some ''2024-01-01'')]))) fresh_page)
     = [dated_item ''a'' (Some ''soon''), dated_item ''b'' (Some ''2024-01-01'')]"
proof -
  have 1: "grid fresh_page \<noteq> None" and 2: "\<not> loading fresh_page"
    by (simp_all add: fresh_page_def)
  have 3: "ok 200"
    by (simp add: ok_def)
  have order: "insertion_sort (compareNewest sample_parser)
        [dated_item ''a'' (Some ''soon''), dated_item ''b'' (Some ''2024-01-01'')]
      = [dated_item ''a'' (Some ''soon''), dated_item ''b'' (Some ''2024-01-01'')]"
    by (simp add: insertion_sort_def compareNewest_def publishedTime_def dated_item_def
        sample_parser_def compare_value_def)
  have times: "publishedTime sample_parser (dated_item ''a'' (Some ''soon'')) = None"
    "publishedTime sample_parser (dated_item ''b'' (Some ''2024-01-01'')) = Some 1704067200000"
    by (simp_all add: publishedTime_def dated_item_def sample_parser_def)
  have nan: "compareNewest sample_parser (dated_item ''a'' (Some ''soon''))
        (dated_item ''b'' (Some ''2024-01-01'')) = None"
    "compareNewest sample_parser (dated_item ''b'' (Some ''2024-01-01''))
        (dated_item ''a'' (Some ''soon'')) = None"
    by (simp_all add: compareNewest_def times)
  show ?thesis
    using allItems_fetchLiveNews[OF 1 2 3, of "[dated_item ''a'' (Some ''soon''),
        dated_item ''b'' (Some ''2024-01-01'')]" True sample_parser insertion_sort] order times nan
    by simp
qed

section \<open>The calculator: what the displays hold\<close>

lemma totalDistance_sum:
  "totalDistance td = distance (bus td) + distance (car td) + distance (bike td)
       + distance (cycle td) + distance (walking td)"
  by (simp add: totalDistance_def values_of_def entries_def)

lemma totalEmission_sum:
  "totalEmission td = distance (bus td) * emission (bus td) + distance (car td) * emission (car td)
       + distance (bike td) * emission (bike td) + distance (cycle td) * emission (cycle td)
       + distance (walking td) * emission (walking td)"
  by (simp add: totalEmission_def entries_def)

lemma all_transports_upd:
  "f(Bus := a, Car := b, Bike := c, Cycle := d, Walking := e)
     = (\<lambda>t. case t of Bus \<Rightarrow> a | Car \<Rightarrow> b | Bike \<Rightarrow> c | Cycle \<Rightarrow> d | Walking \<Rightarrow> e)"
  by (auto simp: fun_eq_iff split: transport.splits)

lemma foldl_emission_step:
  "foldl emission_step (0, 0, texts) (entries td)
     = foldl emission_step (0, 0, \<lambda>t. 0) (entries td)"
  by (simp add: entries_def emission_step_def Let_def all_transports_upd)

lemma updateEmissions_form:
  "updateEmissions s =
     (case foldl emission_step (0, 0, \<lambda>t. 0) (entries (transportData s)) of
        (totalEm, totalSaved, texts) \<Rightarrow>
          s\<lparr>emission_text := texts, total_emission_text := totalEm, co2_saved_text := totalSaved\<rparr>)"
  unfolding updateEmissions_def by (simp only: foldl_emission_step[of "emission_text s"])

lemma foldl_bar_height:
  "foldl (\<lambda>heights (t, d). heights(t := g d)) h (entries td)
     = foldl (\<lambda>heights (t, d). heights(t := g d)) (\<lambda>t. 0) (entries td)"
  by (simp add: entries_def all_transports_upd)

lemma updateBarChart_form:
  "updateBarChart s =
     (let maxEmission = math_max (map (\<lambda>(t, d). distance d * emission d) (entries (transportData s)))
      in s\<lparr>bar_height :=
             foldl (\<lambda>heights (t, d).
                      heights(t := max (if maxEmission > 0 then (distance d * emission d / maxEmission) * 100 else 0) 5))
                   (\<lambda>t. 0) (entries (transportData s))\<rparr>)"
  unfolding updateBarChart_def Let_def
  by (simp only: foldl_bar_height[of _ "bar_height s"])

lemma transportData_updateCalculations:
  "transportData (updateCalculations s) = transportData s"
  by (simp add: updateCalculations_def updateAchievement_def updateProgressCircle_def
      updateBarChart_def updateEmissions_def updateTotalDistance_def Let_def split: prod.splits)

lemma updateCalculations_kept:
  "slider_value (updateCalculations s) = slider_value s"
  "value_text (updateCalculations s) = value_text s"
  "tips_section (updateCalculations s) = tips_section s"
  by (simp_all add: updateCalculations_def updateAchievement_def updateProgressCircle_def
      updateBarChart_def updateEmissions_def updateTotalDistance_def Let_def split: prod.splits)

lemma updateCalculations_from_data:
  assumes "transportData s = transportData s'"
  shows "total_distance_text (updateCalculations s) = total_distance_text (updateCalculations s')"
    and "emission_text (updateCalculations s) = emission_text (updateCalculations s')"
    and "total_emission_text (updateCalculations s) = total_emission_text (updateCalculations s')"
    and "co2_saved_text (updateCalculations s) = co2_saved_text (updateCalculations s')"
    and "bar_height (updateCalculations s) = bar_height (updateCalculations s')"
    and "strokeDashoffset (updateCalculations s) = strokeDashoffset (updateCalculations s')"
    and "achievement_text (updateCalculations s) = achievement_text (updateCalculations s')"
    and "achievement_background (updateCalculations s) = achievement_background (updateCalculations s')"
  using assms
  by (simp_all add: updateCalculations_def updateAchievement_def updateProgressCircle_def
      updateBarChart_form updateEmissions_form updateTotalDistance_def Let_def split: prod.splits
      cong: if_cong)

text \<open>The recomputation reads the data only, and overwrites every derived display.\<close>

lemma updateCalculations_cong:
  assumes "transportData s = transportData s'" and "slider_value s = slider_value s'"
    and "value_text s = value_text s'" and "tips_section s = tips_section s'"
  shows "updateCalculations s = updateCalculations s'"
  by (rule calculator.equality)
     (simp_all add: updateCalculations_kept transportData_updateCalculations assms
        updateCalculations_from_data[OF assms(1)])

lemma updateCalculations_idem: "updateCalculations (updateCalculations s) = updateCalculations s"
  by (rule updateCalculations_cong)
     (simp_all add: updateCalculations_kept transportData_updateCalculations)

lemma total_emission_text_updateEmissions:
  "total_emission_text (updateEmissions s) = totalEmission (transportData s)"
  by (simp add: updateEmissions_def entries_def emission_step_def totalEmission_def Let_def)

lemma total_emission_text_updateCalculations:
  "total_emission_text (updateCalculations s) = totalEmission (transportData s)"
proof -
  have later: "total_emission_text (updateAchievement (updateProgressCircle (updateBarChart q)))
                 = total_emission_text q" for q
    by (simp add: updateAchievement_def updateProgressCircle_def updateBarChart_def Let_def)
  have td: "transportData (updateTotalDistance s) = transportData s"
    by (simp add: updateTotalDistance_def)
  show ?thesis
    unfolding updateCalculations_def
    by (simp only: later total_emission_text_updateEmissions td)
qed

lemma total_distance_text_updateCalculations:
  "total_distance_text (updateCalculations s) = totalDistance (transportData s)"
  by (simp add: updateCalculations_def updateAchievement_def updateProgressCircle_def
      updateBarChart_def updateEmissions_def updateTotalDistance_def Let_def split: prod.splits)

lemma achievement_text_updateCalculations:
  "achievement_text (updateCalculations s) =
     (if zeroEmissionPercentage (transportData s) \<ge> 50
      then ''Outstanding! Over 50% of your travel is zero-emission.''
      else if zeroEmissionPercentage (transportData s) \<ge> 25
      then ''Good progress! 25% of your travel is zero-emission.''
      else ''Try to increase zero-emission transportation for better impact.'')"
proof -
  have td: "transportData (updateProgressCircle (updateBarChart (updateEmissions (updateTotalDistance s))))
              = transportData s"
    by (simp add: updateProgressCircle_def updateBarChart_def updateEmissions_def
        updateTotalDistance_def Let_def split: prod.splits)
  show ?thesis
    unfolding updateCalculations_def
    by (simp add: updateAchievement_def Let_def td)
qed

lemma entry_of_assign_distance:
  "distance (entry_of (assign_distance t v td) u) = (if u = t then v else distance (entry_of td u))"
  by (cases t; cases u) simp_all

lemma factors_fixed_assign: "factors_fixed td \<Longrightarrow> factors_fixed (assign_distance t v td)"
  by (cases t) (simp_all add: factors_fixed_def)

lemma factors_fixed_initial: "factors_fixed initial_transportData"
  by (simp add: factors_fixed_def initial_transportData_def)

lemma transportData_input:
  "transportData (setupSliders_input t v s) = assign_distance t v (transportData s)"
  by (simp add: setupSliders_input_def Let_def updateTransportValue_def transportData_updateCalculations)

lemma reset_sliders_form:
  "foldl (\<lambda>q (t, d). updateTransportValue t 0 (q\<lparr>slider_value := (slider_value q)(t := 0)\<rparr>)) q (entries td)
     = q\<lparr>slider_value := (\<lambda>t. 0), value_text := (\<lambda>t. 0)\<rparr>"
  by (simp add: entries_def updateTransportValue_def all_transports_upd fun_eq_iff split: transport.splits)

lemma resetCalculator_form:
  "resetCalculator s =
     updateCalculations (s\<lparr>transportData := initial_transportData, slider_value := (\<lambda>t. 0),
       value_text := (\<lambda>t. 0)\<rparr>)"
  by (simp add: resetCalculator_def Let_def reset_sliders_form)

lemma transportData_reset: "transportData (resetCalculator s) = initial_transportData"
  by (simp add: resetCalculator_form transportData_updateCalculations)

lemma tips_keeps:
  assumes "generateTailoredTips tp pf service s = Inr s'"
  shows "transportData s' = transportData s" and "total_emission_text s' = total_emission_text s"
    and "total_distance_text s' = total_distance_text s" and "achievement_text s' = achievement_text s"
  using assms by (auto simp: generateTailoredTips_def split: sum.splits tips_page.splits)

text \<open>
  In every state the calculator can be in, the emission factors are the constructor's, and
  the displayed totals and the achievement text are those of the current distances.
\<close>

lemma reachable_invariant:
  assumes "reachable s"
  shows "factors_fixed (transportData s)
       \<and> total_emission_text s = totalEmission (transportData s)
       \<and> total_distance_text s = totalDistance (transportData s)"
  using assms
proof (induction rule: reachable.induct)
  case (constructed delivered)
  show ?case
    by (simp add: new_calculator_def total_emission_text_updateCalculations
        total_distance_text_updateCalculations factors_fixed_initial transportData_updateCalculations)
next
  case (slid s t v)
  then show ?case
    by (simp add: transportData_input factors_fixed_assign)
       (simp add: setupSliders_input_def Let_def total_emission_text_updateCalculations
        total_distance_text_updateCalculations updateTransportValue_def)
next
  case (reset s)
  show ?case
    by (simp add: transportData_reset factors_fixed_initial)
       (simp add: resetCalculator_form total_emission_text_updateCalculations
        total_distance_text_updateCalculations)
next
  case (tipped s tp pf service s')
  then show ?case
    by (simp add: tips_keeps)
qed

lemma achievement_text_reachable:
  assumes "reachable s"
  shows "achievement_text s =
     (if zeroEmissionPercentage (transportData s) \<ge> 50
      then ''Outstanding! Over 50% of your travel is zero-emission.''
      else if zeroEmissionPercentage (transportData s) \<ge> 25
      then ''Good progress! 25% of your travel is zero-emission.''
      else ''Try to increase zero-emission transportation for better impact.'')"
  using assms
proof (induction rule: reachable.induct)
  case (constructed delivered)
  show ?case
    unfolding new_calculator_def
    by (simp only: achievement_text_updateCalculations transportData_updateCalculations)
next
  case (slid s t v)
  show ?case
    unfolding setupSliders_input_def Let_def
    by (simp only: achievement_text_updateCalculations transportData_updateCalculations)
next
  case (reset s)
  show ?case
    unfolding resetCalculator_form
    by (simp only: achievement_text_updateCalculations transportData_updateCalculations)
next
  case (tipped s tp pf service s')
  then show ?case
    by (simp add: tips_keeps)
qed

lemma reachable_scenario: "reachable scenario"
  unfolding scenario_def by (intro reachable.intros)

lemma transportData_scenario:
  "transportData scenario =
     \<lparr>bus = \<lparr>distance = 10, emission = 0.12\<rparr>,
      car = \<lparr>distance = 5, emission = 0.21\<rparr>,
      bike = \<lparr>distance = 0, emission = 0.075\<rparr>,
      cycle = \<lparr>distance = 20, emission = 0\<rparr>,
      walking = \<lparr>distance = 5, emission = 0\<rparr>\<rparr>"
  by (simp add: scenario_def transportData_input new_calculator_def initial_transportData_def
      transportData_updateCalculations)

text \<open>Every assignment of distances is that of a state the calculator can be in.\<close>

lemma every_assignment_reachable:
  "\<exists>s. reachable s \<and> distance (bus (transportData s)) = b \<and> distance (car (transportData s)) = c
       \<and> distance (bike (transportData s)) = k \<and> distance (cycle (transportData s)) = y
       \<and> distance (walking (transportData s)) = w"
proof -
  let ?s = "setupSliders_input Walking w (setupSliders_input Cycle y (setupSliders_input Bike k
       (setupSliders_input Car c (setupSliders_input Bus b (new_calculator blank_page)))))"
  have "reachable ?s"
    by (intro reachable.intros)
  moreover have "distance (bus (transportData ?s)) = b \<and> distance (car (transportData ?s)) = c
       \<and> distance (bike (transportData ?s)) = k \<and> distance (cycle (transportData ?s)) = y
       \<and> distance (walking (transportData ?s)) = w"
    by (simp add: transportData_input)
  ultimately show ?thesis
    by blast
qed

section \<open>The calculator: the claims\<close>

text \<open>
  C6. In every state the calculator can be in, whatever the distances, the displayed total
  emission is the sum over the transports of the distance times the fixed factor (bus
  0.12, car 0.21, bike 0.075, cycle 0, walking 0), and the total emission of the request
  payload is the same number. When the distances are bus 10, car 5, bike 0, cycle 20 and
  walking 5, the total distance is 40, the total emission 2.25, the zero-emission share
  0.625, and the achievement text the one of the band "outstanding".
\<close>

theorem totalEmission_weighted_sum:
  assumes "reachable s"
  shows "total_emission_text s
           = distance (bus (transportData s)) * 0.12 + distance (car (transportData s)) * 0.21
             + distance (bike (transportData s)) * 0.075 + distance (cycle (transportData s)) * 0
             + distance (walking (transportData s)) * 0
       \<and> payload_totalEmission (snapshot (transportData s)) = total_emission_text s
       \<and> (distance (bus (transportData s)) = 10 \<and> distance (car (transportData s)) = 5
            \<and> distance (bike (transportData s)) = 0 \<and> distance (cycle (transportData s)) = 20
            \<and> distance (walking (transportData s)) = 5
          \<longrightarrow> total_distance_text s = 40 \<and> total_emission_text s = 2.25
            \<and> zeroEmissionPercentage (transportData s) / 100 = 0.625
            \<and> achievement_text s = ''Outstanding! Over 50% of your travel is zero-emission.'')"
proof -
  note inv = reachable_invariant[OF assms]
  have f: "factors_fixed (transportData s)"
    using inv by simp
  have sum: "total_emission_text s
           = distance (bus (transportData s)) * 0.12 + distance (car (transportData s)) * 0.21
             + distance (bike (transportData s)) * 0.075 + distance (cycle (transportData s)) * 0
             + distance (walking (transportData s)) * 0"
  proof -
    have es: "emission (bus (transportData s)) = 0.12" "emission (car (transportData s)) = 0.21"
      "emission (bike (transportData s)) = 0.075" "emission (cycle (transportData s)) = 0"
      "emission (walking (transportData s)) = 0"
      using f unfolding factors_fixed_def by blast+
    have "total_emission_text s = totalEmission (transportData s)"
      using inv by blast
    then show ?thesis
      by (simp only: totalEmission_sum es)
  qed
  have snap: "payload_totalEmission (snapshot (transportData s)) = total_emission_text s"
    using inv by (simp add: snapshot_def)
  have scen: "total_distance_text s = 40 \<and> total_emission_text s = 2.25
            \<and> zeroEmissionPercentage (transportData s) / 100 = 0.625
            \<and> achievement_text s = ''Outstanding! Over 50% of your travel is zero-emission.''"
    if d: "distance (bus (transportData s)) = 10" "distance (car (transportData s)) = 5"
      "distance (bike (transportData s)) = 0" "distance (cycle (transportData s)) = 20"
      "distance (walking (transportData s)) = 5"
  proof -
    have td: "total_distance_text s = 40"
      using inv d by (simp add: totalDistance_sum)
    have te: "total_emission_text s = 2.25"
      using sum d by simp
    have z: "zeroEmissionPercentage (transportData s) = 62.5"
      using d by (simp add: zeroEmissionPercentage_def Let_def totalDistance_sum)
    have a: "achievement_text s = ''Outstanding! Over 50% of your travel is zero-emission.''"
      using achievement_text_reachable[OF assms] z by simp
    show ?thesis
      using td te z a by simp
  qed
  show ?thesis
    using sum snap scen by blast
qed

theorem totalEmission_weighted_sum_witness:
  "total_distance_text scenario = 40 \<and> total_emission_text scenario = 2.25
     \<and> zeroEmissionPercentage (transportData scenario) / 100 = 0.625
     \<and> achievement_text scenario = ''Outstanding! Over 50% of your travel is zero-emission.''"
  using totalEmission_weighted_sum[OF reachable_scenario]
  by (simp add: transportData_scenario)

text \<open>
  C3, as the code has it. The listener of a slider validates nothing: for every transport
  and every value, negative ones included, it overwrites the distance of that transport
  with the value, leaves the other distances as they were, and recomputes: the displayed
  totals are those of the new distances, and a further recomputation changes nothing.
\<close>

theorem setupSliders_input_overwrites:
  "distance (entry_of (transportData (setupSliders_input t v s)) t) = v
   \<and> (\<forall>u. distance (entry_of (transportData (setupSliders_input t v s)) u)
          = (if u = t then v else distance (entry_of (transportData s) u)))
   \<and> total_distance_text (setupSliders_input t v s) = totalDistance (transportData (setupSliders_input t v s))
   \<and> total_emission_text (setupSliders_input t v s) = totalEmission (transportData (setupSliders_input t v s))
   \<and> updateCalculations (setupSliders_input t v s) = setupSliders_input t v s"
proof -
  have "updateCalculations (setupSliders_input t v s) = setupSliders_input t v s"
    unfolding setupSliders_input_def Let_def by (rule updateCalculations_idem)
  moreover have "total_distance_text (setupSliders_input t v s)
      = totalDistance (transportData (setupSliders_input t v s))"
    unfolding setupSliders_input_def Let_def
    by (simp only: total_distance_text_updateCalculations transportData_updateCalculations)
  moreover have "total_emission_text (setupSliders_input t v s)
      = totalEmission (transportData (setupSliders_input t v s))"
    unfolding setupSliders_input_def Let_def
    by (simp only: total_emission_text_updateCalculations transportData_updateCalculations)
  ultimately show ?thesis
    by (simp add: transportData_input entry_of_assign_distance)
qed

theorem setupSliders_input_overwrites_witness:
  "distance (entry_of (transportData (setupSliders_input Bus 10 (new_calculator blank_page))) Bus) = 10
   \<and> distance (entry_of (transportData (setupSliders_input Bus (- 5) (new_calculator blank_page))) Bus) = - 5
   \<and> total_distance_text (setupSliders_input Bus 10 (new_calculator blank_page)) = 10"
proof -
  have "totalDistance (transportData (setupSliders_input Bus 10 (new_calculator blank_page))) = 10"
    by (simp add: totalDistance_sum transportData_input new_calculator_def initial_transportData_def
        transportData_updateCalculations)
  then show ?thesis
    using setupSliders_input_overwrites[of Bus 10 "new_calculator blank_page"]
      setupSliders_input_overwrites[of Bus "- 5" "new_calculator blank_page"]
    by simp
qed

text \<open>
  C3 as stated fails: the value \<open>- 5\<close> is not a number \<open>\<ge> 0\<close>, and the listener stores it
  as the distance of the car. (The listener has no failure to report: its result is a
  state.)
\<close>

theorem setupSliders_input_negative_counterexample:
  "\<not> (0 \<le> (- 5 :: real))
   \<and> distance (car (transportData (new_calculator blank_page))) = 0
   \<and> distance (car (transportData (setupSliders_input Car (- 5) (new_calculator blank_page)))) = - 5"
  by (simp add: transportData_input new_calculator_def initial_transportData_def
      transportData_updateCalculations)

lemma overflow_limit_large: "100 < overflow_limit"
proof -
  have "(2::real) ^ 1024 = 2 ^ 54 * 2 ^ 970"
    by (simp add: power_add[symmetric])
  then have "overflow_limit = (2 ^ 54 - 1) * 2 ^ 970"
    by (simp add: overflow_limit_def algebra_simps)
  moreover have "(1::real) \<le> 2 ^ 970"
    by simp
  moreover have "(100::real) < 2 ^ 54 - 1"
    by simp
  ultimately show ?thesis
    by (metis (no_types) less_le_trans mult.right_neutral mult_left_mono less_imp_le
        order_less_trans zero_less_numeral)
qed

lemma to_range_small: "- overflow_limit < r \<Longrightarrow> r < overflow_limit \<Longrightarrow> to_range r = Num r"
  by (simp add: to_range_def)

lemma to_range_cases:
  assumes "0 \<le> r"
  shows "to_range r = (if r < overflow_limit then Num r else PosInfinity)"
  using assms overflow_limit_large by (simp add: to_range_def)

text \<open>The total distance of non-negative finite distances: their sum, or infinity from
  the first partial sum that reaches the limit on.\<close>

lemma totalDistance_num_cases:
  assumes "d Bus = Num b" and "d Car = Num c" and "d Bike = Num k" and "d Cycle = Num y"
    and "d Walking = Num w"
    and "0 \<le> b" and "0 \<le> c" and "0 \<le> k" and "0 \<le> y" and "0 \<le> w"
  shows "totalDistance_num d
           = (if b + c + k + y + w < overflow_limit then Num (b + c + k + y + w) else PosInfinity)"
  using assms overflow_limit_large
  by (simp add: totalDistance_num_def to_range_cases)

text \<open>
  C8, as the code has it. For every assignment of non-negative finite distances (below
  the overflow limit of the numbers): the zero-emission share (the percentage the code computes, as a fraction) is 0 when the
  total distance is 0; it lies between 0 and 1 when the sum of the cycle and walking
  distances stays below the overflow limit of the numbers; and it is NaN when that sum
  overflows.
\<close>

theorem zeroEmissionShare_bounds:
  assumes "d Bus = Num b" and "d Car = Num c" and "d Bike = Num k" and "d Cycle = Num y"
    and "d Walking = Num w"
    and "0 \<le> b" and "0 \<le> c" and "0 \<le> k" and "0 \<le> y" and "0 \<le> w"
    and "b < overflow_limit" and "c < overflow_limit" and "k < overflow_limit"
    and "y < overflow_limit" and "w < overflow_limit"
  shows "(totalDistance_num d = Num 0 \<longrightarrow> zeroEmissionPercentage_num d = Num 0)
       \<and> (y + w < overflow_limit \<longrightarrow>
            (\<exists>p. zeroEmissionPercentage_num d = Num p \<and> 0 \<le> p / 100 \<and> p / 100 \<le> 1))
       \<and> (overflow_limit \<le> y + w \<longrightarrow> zeroEmissionPercentage_num d = NaN)"
proof -
  note total = totalDistance_num_cases[OF assms(1-10)]
  let ?sum = "b + c + k + y + w"
  have zero: "zeroEmissionPercentage_num d = Num 0" if "totalDistance_num d = Num 0"
    using that by (simp add: zeroEmissionPercentage_num_def Let_def)
  have bounded: "\<exists>p. zeroEmissionPercentage_num d = Num p \<and> 0 \<le> p / 100 \<and> p / 100 \<le> 1"
    if small: "y + w < overflow_limit"
  proof -
    have z: "num_add (d Cycle) (d Walking) = Num (y + w)"
      using assms small by (simp add: to_range_cases)
    show ?thesis
    proof (cases "?sum < overflow_limit")
      case False
      then have "zeroEmissionPercentage_num d = Num 0"
        using total z overflow_limit_large
        by (simp add: zeroEmissionPercentage_num_def Let_def to_range_def)
      then show ?thesis
        by simp
    next
      case True
      then have t: "totalDistance_num d = Num ?sum"
        using total by simp
      show ?thesis
      proof (cases "?sum > 0")
        case False
        then have "zeroEmissionPercentage_num d = Num 0"
          using t by (simp add: zeroEmissionPercentage_num_def Let_def)
        then show ?thesis
          by simp
      next
        case pos: True
        define q where "q = (y + w) / ?sum"
        have q0: "0 \<le> q"
          unfolding q_def using assms(9,10) pos by simp
        have "y + w \<le> ?sum"
          using assms(6-8) by simp
        then have q1: "q \<le> 1"
          unfolding q_def using pos by simp
        have quot: "num_div (Num (y + w)) (Num ?sum) = Num q"
          using pos q0 q1 overflow_limit_large by (simp add: q_def[symmetric] to_range_def)
        have prod: "num_mul (Num q) (Num 100) = Num (q * 100)"
          using q0 q1 overflow_limit_large by (simp add: to_range_def)
        have "zeroEmissionPercentage_num d = Num (q * 100)"
          using t z pos quot prod by (simp add: zeroEmissionPercentage_num_def Let_def)
        then show ?thesis
          using q0 q1 by simp
      qed
    qed
  qed
  have nan: "zeroEmissionPercentage_num d = NaN" if big: "overflow_limit \<le> y + w"
  proof -
    have z: "num_add (d Cycle) (d Walking) = PosInfinity"
      using assms big by (simp add: to_range_cases)
    have "\<not> ?sum < overflow_limit"
      using big assms(6-8) by simp
    then have t: "totalDistance_num d = PosInfinity"
      using total by simp
    show ?thesis
      using t z by (simp add: zeroEmissionPercentage_num_def Let_def)
  qed
  show ?thesis
    using zero bounded nan by blast
qed

text \<open>The distances of the scenario (share 0.625), and all distances 0 (share 0).\<close>

theorem zeroEmissionShare_bounds_witness:
  "zeroEmissionPercentage_num (\<lambda>t. Num 0) = Num 0
   \<and> (\<exists>p. zeroEmissionPercentage_num
              (\<lambda>t. case t of Bus \<Rightarrow> Num 10 | Car \<Rightarrow> Num 5 | Bike \<Rightarrow> Num 0
                 | Cycle \<Rightarrow> Num 20 | Walking \<Rightarrow> Num 5) = Num p
          \<and> 0 \<le> p / 100 \<and> p / 100 \<le> 1)"
proof -
  have small: "(20::real) + 5 < overflow_limit"
    using overflow_limit_large by simp
  have zero: "totalDistance_num (\<lambda>t. Num 0) = Num 0"
    using overflow_limit_large by (simp add: totalDistance_num_def to_range_def)
  have range: "(0::real) < overflow_limit" "(5::real) < overflow_limit" "(10::real) < overflow_limit"
    "(20::real) < overflow_limit"
    using overflow_limit_large by simp_all
  show ?thesis
    using zeroEmissionShare_bounds
        [of "\<lambda>t. Num 0" 0 0 0 0 0]
      zeroEmissionShare_bounds
        [of "\<lambda>t. case t of Bus \<Rightarrow> Num 10 | Car \<Rightarrow> Num 5 | Bike \<Rightarrow> Num 0
               | Cycle \<Rightarrow> Num 20 | Walking \<Rightarrow> Num 5" 10 5 0 20 5]
      small zero range
    by simp
qed

text \<open>
  C8 as stated fails at the top of the number range: with the finite, non-negative
  distances \<open>2^1023\<close> for cycle and for walking (and 0 for the others), the sum of the
  two overflows to infinity, so does the total, and the share is infinity divided by
  infinity: NaN, which is not in the interval from 0 to 1.
\<close>

theorem zeroEmissionShare_overflow_counterexample:
  "(0::real) \<le> 2 ^ 1023 \<and> (2::real) ^ 1023 < overflow_limit
   \<and> zeroEmissionPercentage_num
        (\<lambda>t. case t of Bus \<Rightarrow> Num 0 | Car \<Rightarrow> Num 0 | Bike \<Rightarrow> Num 0
           | Cycle \<Rightarrow> Num (2 ^ 1023) | Walking \<Rightarrow> Num (2 ^ 1023)) = NaN"
proof -
  have double: "(2::real) ^ 1023 + 2 ^ 1023 = 2 ^ 1024"
    by simp
  have finite: "(2::real) ^ 1023 < overflow_limit"
    by (simp add: overflow_limit_def)
  have over: "overflow_limit \<le> (2::real) ^ 1024"
    by (simp add: overflow_limit_def)
  have pos: "\<not> (2::real) ^ 1024 \<le> - overflow_limit"
    using overflow_limit_large by simp
  have z: "to_range (2 * 2 ^ 1023) = PosInfinity"
    using over by (simp add: to_range_def)
  have small: "to_range (2 ^ 1023) = Num (2 ^ 1023)"
    using finite overflow_limit_large by (simp add: to_range_def)
  have zero: "to_range 0 = Num 0"
    using overflow_limit_large by (simp add: to_range_def)
  have "zeroEmissionPercentage_num
        (\<lambda>t. case t of Bus \<Rightarrow> Num 0 | Car \<Rightarrow> Num 0 | Bike \<Rightarrow> Num 0
           | Cycle \<Rightarrow> Num (2 ^ 1023) | Walking \<Rightarrow> Num (2 ^ 1023)) = NaN"
    by (simp add: zeroEmissionPercentage_num_def totalDistance_num_def Let_def z small zero
        del: power_numeral)
  then show ?thesis
    using finite by simp
qed

text \<open>
  C9. From every state, resetting twice gives the state that resetting once gives; and
  after a reset the request payload has the distance 0 for every transport, the total
  distance 0 and the total emission 0, and the displayed total emission is 0.
\<close>

theorem resetCalculator_idempotent_zero:
  "resetCalculator (resetCalculator s) = resetCalculator s
   \<and> snapshot (transportData (resetCalculator s))
       = \<lparr>payload_bus = 0, payload_car = 0, payload_bike = 0, payload_cycle = 0, payload_walking = 0,
          payload_totalDistance = 0, payload_totalEmission = 0\<rparr>
   \<and> total_emission_text (resetCalculator s) = 0"
proof -
  have idem: "resetCalculator (resetCalculator s) = resetCalculator s"
    unfolding resetCalculator_form
    by (rule updateCalculations_cong)
       (simp_all add: updateCalculations_kept transportData_updateCalculations)
  have snap: "snapshot (transportData (resetCalculator s))
       = \<lparr>payload_bus = 0, payload_car = 0, payload_bike = 0, payload_cycle = 0, payload_walking = 0,
          payload_totalDistance = 0, payload_totalEmission = 0\<rparr>"
    by (simp add: transportData_reset snapshot_def initial_transportData_def totalDistance_sum
        totalEmission_sum)
  have te: "total_emission_text (resetCalculator s) = 0"
    unfolding resetCalculator_form
    by (simp add: total_emission_text_updateCalculations totalEmission_sum initial_transportData_def)
  show ?thesis
    using idem snap te by simp
qed

theorem resetCalculator_idempotent_zero_witness:
  "resetCalculator (resetCalculator scenario) = resetCalculator scenario
   \<and> payload_cycle (snapshot (transportData scenario)) = 20
   \<and> payload_cycle (snapshot (transportData (resetCalculator scenario))) = 0
   \<and> payload_totalEmission (snapshot (transportData (resetCalculator scenario))) = 0"
  using resetCalculator_idempotent_zero[of scenario]
  by (simp add: transportData_scenario snapshot_def)

section \<open>Tailored tips: the claims\<close>







end
